theory Spec2Isabelle
  imports Complex_Main "HOL-Library.Log_Nat"
begin

section \<open>Python values and builtins shared by the scripts\<close>

text \<open>
  The scripts of this repository are Python. Their integers are unbounded (\<open>int\<close>),
  their strings are lists of characters (a character outside ASCII is written as its
  UTF-8 bytes), and the documents the Hue bridge returns are the values that
  \<^verbatim>\<open>response.json()\<close> builds: \<^verbatim>\<open>None\<close>, booleans, integers, strings, lists and
  dictionaries. A dictionary is an association list in insertion order whose keys are
  distinct. Numbers with a fractional part do not occur in the records these scripts
  read (the v1 API reports integers) and are not part of the model.
\<close>

datatype json =
    JNull
  | JBool bool
  | JNum int
  | JStr string
  | JArr "json list"
  | JObj "(string \<times> json) list"

text \<open>The exceptions a script can meet once it holds the bridge's answer.\<close>

datatype py_error = AttributeError | TypeError | ValueError | OverflowError

text \<open>Truth value of an object, as \<^verbatim>\<open>if x\<close> and \<^verbatim>\<open>not x\<close> read it.\<close>

fun truthy :: "json \<Rightarrow> bool" where
  "truthy JNull = False"
| "truthy (JBool b) = b"
| "truthy (JNum n) = (n \<noteq> 0)"
| "truthy (JStr s) = (s \<noteq> [])"
| "truthy (JArr xs) = (xs \<noteq> [])"
| "truthy (JObj kvs) = (kvs \<noteq> [])"

text \<open>
  \<^verbatim>\<open>d.get(key, default)\<close>: only a dictionary has the method; on any other value the
  attribute lookup raises.
\<close>

fun py_get :: "json \<Rightarrow> string \<Rightarrow> json \<Rightarrow> py_error + json" where
  "py_get (JObj kvs) key dflt = Inr (case map_of kvs key of None \<Rightarrow> dflt | Some v \<Rightarrow> v)"
| "py_get _ key dflt = Inl AttributeError"

text \<open>\<^verbatim>\<open>d.items()\<close>, with the same failure on a value that is no dictionary.\<close>

fun py_items :: "json \<Rightarrow> py_error + (string \<times> json) list" where
  "py_items (JObj kvs) = Inr kvs"
| "py_items _ = Inl AttributeError"

text \<open>Decimal text of an integer, as \<^verbatim>\<open>str(n)\<close> and \<^verbatim>\<open>f"{n}"\<close> give it.\<close>

fun str_nat :: "nat \<Rightarrow> string" where
  "str_nat n =
     (if n < 10 then [''0123456789'' ! n]
      else str_nat (n div 10) @ [''0123456789'' ! (n mod 10)])"

declare str_nat.simps [simp del]

definition str_int :: "int \<Rightarrow> string" where
  "str_int i = (if i < 0 then CHR ''-'' # str_nat (nat (- i)) else str_nat (nat i))"

text \<open>
  \<^verbatim>\<open>int(x)\<close> on a float drops the fractional part (rounds toward zero). A float is
  the real number it stands for.
\<close>

definition py_int :: "real \<Rightarrow> int" where
  "py_int x = (if 0 \<le> x then \<lfloor>x\<rfloor> else \<lceil>x\<rceil>)"

text \<open>
  \<^verbatim>\<open>a / b\<close> on two integers (\<open>b > 0\<close>) is the double nearest to the quotient, a tie
  going to the even mantissa. \<open>round_half_even n b\<close> is the integer nearest to \<open>n / b\<close>
  for \<open>n \<ge> 0\<close>; \<open>ratio_exponent m b\<close> is the exponent of the power of two at or below
  \<open>m / b\<close>, found from the bit lengths of \<open>m\<close> and \<open>b\<close>; \<open>true_divide\<close> scales the
  quotient to a mantissa of 53 bits, rounds it and scales it back. The model is that of
  a quotient in the range of the normal doubles, which every quotient taken in these
  scripts is.
\<close>

definition round_half_even :: "int \<Rightarrow> int \<Rightarrow> int" where
  "round_half_even n b =
     (let d = n div b; r = n mod b
      in if 2 * r < b then d
         else if b < 2 * r then d + 1
         else if even d then d else d + 1)"

definition ratio_exponent :: "int \<Rightarrow> int \<Rightarrow> int" where
  "ratio_exponent m b =
     (let g = bitlen m - bitlen b
      in if (if 0 \<le> g then b * 2 ^ nat g \<le> m else b \<le> m * 2 ^ nat (- g)) then g
         else g - 1)"

definition true_divide :: "int \<Rightarrow> int \<Rightarrow> real" where
  "true_divide a b =
     (if a = 0 then 0
      else
        (let m = \<bar>a\<bar>;
             e = ratio_exponent m b - 52;
             v = (if 0 \<le> e
                  then real_of_int (round_half_even m (b * 2 ^ nat e) * 2 ^ nat e)
                  else real_of_int (round_half_even (m * 2 ^ nat (- e)) b) / 2 ^ nat (- e))
         in if a < 0 then - v else v))"

text \<open>
  An integer can be turned into a float when, rounded to 53 bits, it stays below
  \<open>2 ^ 1024\<close>; otherwise the conversion raises \<^verbatim>\<open>OverflowError\<close>.
\<close>

definition fits_float :: "int \<Rightarrow> bool" where
  "fits_float n = (\<bar>n\<bar> < 2 ^ 1024 - 2 ^ 970)"

text \<open>
  What Python's own library does is taken as given: the text of a list or dictionary
  (\<^verbatim>\<open>repr\<close>), the text of a temperature in hundredths divided by \<^verbatim>\<open>100.0\<close>,
  \<^verbatim>\<open>json.dumps(v, indent=2)\<close>, and \<^verbatim>\<open>datetime.fromisoformat\<close> (\<open>None\<close> when it
  raises \<^verbatim>\<open>ValueError\<close>).
\<close>

record datetime =
  wall :: int            \<comment> \<open>microseconds from 1970-01-01T00:00:00 to the time shown\<close>
  tzinfo :: "int option" \<comment> \<open>\<open>None\<close> for a naive value, else the UTC offset in microseconds\<close>

record pylib =
  repr_container :: "json \<Rightarrow> string"
  str_centi :: "int \<Rightarrow> string"
  dumps_indent2 :: "json \<Rightarrow> string"
  fromisoformat :: "string \<Rightarrow> datetime option"

text \<open>The text an f-string inserts for a value.\<close>

definition fmt :: "'a pylib_scheme \<Rightarrow> json \<Rightarrow> string" where
  "fmt L v =
     (case v of
        JStr s \<Rightarrow> s
      | JNum n \<Rightarrow> str_int n
      | JBool b \<Rightarrow> (if b then ''True'' else ''False'')
      | JNull \<Rightarrow> ''None''
      | _ \<Rightarrow> repr_container L v)"


section \<open>lounge_color_loop.py\<close>

definition LOUNGE_COLOR_LIGHTS :: "int list" where
  "LOUNGE_COLOR_LIGHTS = [9, 12]"

text \<open>
  \<open>set_light_color\<close> sends one PUT to the light's state resource; the request is
  recorded with the payload it carries.
\<close>

record light_state_put =
  put_light :: int
  put_on :: bool
  put_hue :: int
  put_sat :: int
  put_bri :: int
  put_transitiontime :: int

definition set_light_color :: "int \<Rightarrow> int \<Rightarrow> int \<Rightarrow> int \<Rightarrow> light_state_put" where
  "set_light_color light_id hue saturation brightness =
     \<lparr>put_light = light_id, put_on = True, put_hue = hue, put_sat = saturation,
      put_bri = brightness, put_transitiontime = 10\<rparr>"

definition get_color_name :: "int \<Rightarrow> string" where
  "get_color_name hue =
     (if hue < 3000 then ''Red''
      else if hue < 8000 then ''Orange''
      else if hue < 16000 then ''Yellow''
      else if hue < 30000 then ''Green''
      else if hue < 40000 then ''Cyan''
      else if hue < 48000 then ''Blue''
      else if hue < 54000 then ''Purple''
      else ''Pink'')"

text \<open>The labels in the order of their bands, and the lower threshold of each band.\<close>

definition color_names :: "string list" where
  "color_names =
     [''Red'', ''Orange'', ''Yellow'', ''Green'', ''Cyan'', ''Blue'', ''Purple'', ''Pink'']"

definition color_thresholds :: "int list" where
  "color_thresholds = [0, 3000, 8000, 16000, 30000, 40000, 48000, 54000, 65535]"

text \<open>The hue advance of one tick: \<^verbatim>\<open>hue = (hue + 5000) % 65535\<close>.\<close>

definition next_hue :: "int \<Rightarrow> int" where
  "next_hue hue = (hue + 5000) mod 65535"

text \<open>
  What the loop does, in order: requests to the bridge, lines printed, sleeps.
\<close>

datatype event = Put light_state_put | Print string | Sleep real

datatype outcome = Stopped | Running

text \<open>
  The test \<^verbatim>\<open>duration_seconds and (time.time() - start_time) > duration_seconds\<close>:
  \<open>None\<close> and \<open>0\<close> are both false as a condition, and then the clock is not compared.
\<close>

definition duration_exceeded :: "int option \<Rightarrow> real \<Rightarrow> bool" where
  "duration_exceeded duration_seconds elapsed =
     (case duration_seconds of
        None \<Rightarrow> False
      | Some d \<Rightarrow> d \<noteq> 0 \<and> elapsed > real_of_int d)"

text \<open>
  The line that announces the duration before the loop starts; an empty line follows
  it. (The two lines before it, about the lights and the speed, say nothing of the
  loop's course and are left out.)
\<close>

definition duration_banner :: "int option \<Rightarrow> string" where
  "duration_banner duration_seconds =
     (case duration_seconds of
        None \<Rightarrow> ''Duration: Forever (press Ctrl+C to stop)''
      | Some d \<Rightarrow>
          if d \<noteq> 0 then ''Duration: '' @ str_int d @ '' seconds''
          else ''Duration: Forever (press Ctrl+C to stop)'')"

text \<open>
  One pass of \<^verbatim>\<open>while True\<close> that does not stop: a request per light, the colour
  line, the hue advance, the sleep.
\<close>

definition tick_events :: "real \<Rightarrow> int \<Rightarrow> event list" where
  "tick_events speed hue =
     map (\<lambda>light_id. Put (set_light_color light_id hue 254 254)) LOUNGE_COLOR_LIGHTS
     @ [Print (''Color: '' @ get_color_name hue @ '' (hue: '' @ str_int hue @ '')''),
        Sleep speed]"

text \<open>
  The loop can run without end, so it is run for a number of passes. \<open>elapsed k\<close> is
  \<^verbatim>\<open>time.time() - start_time\<close> as read at the check that opens pass \<open>k\<close>. The result
  is whether the loop has stopped, the hue it holds and everything it did. An
  interrupt from the keyboard and a failing request come from outside and are not
  part of the model.
\<close>

fun color_loop_from ::
  "nat \<Rightarrow> int option \<Rightarrow> real \<Rightarrow> (nat \<Rightarrow> real) \<Rightarrow> nat \<Rightarrow> int \<Rightarrow> event list
   \<Rightarrow> outcome \<times> int \<times> event list" where
  "color_loop_from 0 duration_seconds speed elapsed k hue done = (Running, hue, done)"
| "color_loop_from (Suc n) duration_seconds speed elapsed k hue done =
     (if duration_exceeded duration_seconds (elapsed k)
      then (Stopped, hue,
            done @ [Print ''\<newline>Duration reached. Stopping color loop.''])
      else color_loop_from n duration_seconds speed elapsed (Suc k) (next_hue hue)
             (done @ tick_events speed hue))"

text \<open>Whether an event is a request to the bridge.\<close>

definition is_put :: "event \<Rightarrow> bool" where
  "is_put e = (case e of Put _ \<Rightarrow> True | _ \<Rightarrow> False)"

definition color_loop ::
  "nat \<Rightarrow> int option \<Rightarrow> real \<Rightarrow> (nat \<Rightarrow> real) \<Rightarrow> outcome \<times> int \<times> event list" where
  "color_loop n duration_seconds speed elapsed =
     color_loop_from n duration_seconds speed elapsed 0 0
       [Print (duration_banner duration_seconds), Print []]"


section \<open>sensor_activity.py\<close>

subsection \<open>get_time_ago\<close>

text \<open>\<^verbatim>\<open>timestamp_str.replace('Z', '+00:00')\<close>.\<close>

definition replace_Z :: "string \<Rightarrow> string" where
  "replace_Z s = concat (map (\<lambda>c. if c = CHR ''Z'' then ''+00:00'' else [c]) s)"

text \<open>
  Lines 16 to 22: a naive value is read as UTC and the difference to the current UTC
  time \<open>now\<close> is taken, a whole number of microseconds. \<^verbatim>\<open>total_seconds()\<close> divides
  that number by \<open>10 ^ 6\<close>, integer by integer, into a float, and \<^verbatim>\<open>int()\<close> drops the
  fraction of the float. The float is rounded: far from the timestamp (from \<open>2 ^ 34\<close>
  seconds on, some 544 years) a difference just below a whole second becomes that
  whole second.
\<close>

definition utc_micros :: "datetime \<Rightarrow> int" where
  "utc_micros d = wall d - (case tzinfo d of None \<Rightarrow> 0 | Some off \<Rightarrow> off)"

definition elapsed_seconds :: "int \<Rightarrow> datetime \<Rightarrow> int" where
  "elapsed_seconds now last_update =
     (let last_update =
            (if tzinfo last_update = None then last_update\<lparr>tzinfo := Some 0\<rparr>
             else last_update);
          diff = now - utc_micros last_update
      in py_int (true_divide diff 1000000))"

text \<open>Lines 24 to 34: the label for a count of seconds.\<close>

definition time_ago_label :: "int \<Rightarrow> string" where
  "time_ago_label seconds =
     (if seconds < 60 then str_int seconds @ '' seconds ago''
      else if seconds < 3600 then
        (let minutes = seconds div 60
         in str_int minutes @ '' minute'' @ (if minutes \<noteq> 1 then ''s'' else []) @ '' ago'')
      else if seconds < 86400 then
        (let hours = seconds div 3600
         in str_int hours @ '' hour'' @ (if hours \<noteq> 1 then ''s'' else []) @ '' ago'')
      else
        (let days = seconds div 86400
         in str_int days @ '' day'' @ (if days \<noteq> 1 then ''s'' else []) @ '' ago''))"

text \<open>
  The body of the \<^verbatim>\<open>try\<close>: a value that is no string has no \<^verbatim>\<open>replace\<close>, and
  \<^verbatim>\<open>fromisoformat\<close> raises on a string it cannot read.
\<close>

definition get_time_ago_try :: "'a pylib_scheme \<Rightarrow> int \<Rightarrow> json \<Rightarrow> py_error + string" where
  "get_time_ago_try L now timestamp_str =
     (case timestamp_str of
        JStr s \<Rightarrow>
          (case fromisoformat L (replace_Z s) of
             None \<Rightarrow> Inl ValueError
           | Some last_update \<Rightarrow> Inr (time_ago_label (elapsed_seconds now last_update)))
      | _ \<Rightarrow> Inl AttributeError)"

definition get_time_ago :: "'a pylib_scheme \<Rightarrow> int \<Rightarrow> json \<Rightarrow> string" where
  "get_time_ago L now timestamp_str =
     (if timestamp_str = JStr ''none'' \<or> \<not> truthy timestamp_str then ''Never''
      else
        (case get_time_ago_try L now timestamp_str of
           Inr label \<Rightarrow> label
         | Inl e \<Rightarrow> ''Error parsing: '' @ fmt L timestamp_str))"

subsection \<open>list_sensor_activity: grouping\<close>

text \<open>The dictionary built for every sensor (lines 62 to 75).\<close>

record sensor_data =
  sd_id :: string
  sd_name :: json
  sd_type :: json
  sd_lastupdated :: json
  sd_state :: json
  sd_config :: json

definition sensor_data_of :: "string \<Rightarrow> json \<Rightarrow> py_error + sensor_data" where
  "sensor_data_of sensor_id sensor_info =
     (case py_get sensor_info ''type'' (JStr ''Unknown'') of
        Inl e \<Rightarrow> Inl e
      | Inr sensor_type \<Rightarrow>
     (case py_get sensor_info ''name'' (JStr ''Unknown'') of
        Inl e \<Rightarrow> Inl e
      | Inr name \<Rightarrow>
     (case py_get sensor_info ''state'' (JObj []) of
        Inl e \<Rightarrow> Inl e
      | Inr state \<Rightarrow>
     (case py_get sensor_info ''config'' (JObj []) of
        Inl e \<Rightarrow> Inl e
      | Inr config \<Rightarrow>
     (case py_get state ''lastupdated'' (JStr ''none'') of
        Inl e \<Rightarrow> Inl e
      | Inr lastupdated \<Rightarrow>
          Inr \<lparr>sd_id = sensor_id, sd_name = name, sd_type = sensor_type,
               sd_lastupdated = lastupdated, sd_state = state, sd_config = config\<rparr>)))))"

text \<open>The four lists the sensors are appended to.\<close>

record buckets =
  motion_sensors :: "sensor_data list"
  temperature_sensors :: "sensor_data list"
  dimmer_switches :: "sensor_data list"
  other_sensors :: "sensor_data list"

definition no_sensors :: buckets where
  "no_sensors =
     \<lparr>motion_sensors = [], temperature_sensors = [], dimmer_switches = [],
      other_sensors = []\<rparr>"

text \<open>The chain of tests on the declared type (lines 77 to 86).\<close>

definition classify :: "buckets \<Rightarrow> sensor_data \<Rightarrow> buckets" where
  "classify b sensor_data =
     (if sd_type sensor_data = JStr ''ZLLPresence''
        then b\<lparr>motion_sensors := motion_sensors b @ [sensor_data]\<rparr>
      else if sd_type sensor_data = JStr ''ZLLTemperature''
        then b\<lparr>temperature_sensors := temperature_sensors b @ [sensor_data]\<rparr>
      else if sd_type sensor_data = JStr ''ZLLLightLevel''
        then b\<lparr>temperature_sensors := temperature_sensors b @ [sensor_data]\<rparr>
      else if sd_type sensor_data = JStr ''ZLLSwitch''
        then b\<lparr>dimmer_switches := dimmer_switches b @ [sensor_data]\<rparr>
      else if sd_type sensor_data \<notin> set [JStr ''Daylight'', JStr ''CLIPGenericStatus'']
        then b\<lparr>other_sensors := other_sensors b @ [sensor_data]\<rparr>
      else b)"

text \<open>The loop over \<^verbatim>\<open>sensors.items()\<close>; it ends at the first record that raises.\<close>

fun group_sensors :: "buckets \<Rightarrow> (string \<times> json) list \<Rightarrow> py_error + buckets" where
  "group_sensors b [] = Inr b"
| "group_sensors b ((sensor_id, sensor_info) # rest) =
     (case sensor_data_of sensor_id sensor_info of
        Inl e \<Rightarrow> Inl e
      | Inr sensor_data \<Rightarrow> group_sensors (classify b sensor_data) rest)"

subsection \<open>list_sensor_activity: the report\<close>

text \<open>
  The report is the list of the lines printed. Each of the four sections runs a loop
  over its sensors; \<open>each_sensor\<close> is that loop, ending at the first sensor whose
  lines raise. \<open>now_at\<close> gives the clock reading of the \<^verbatim>\<open>get_time_ago\<close> call made
  for a sensor (every sensor is printed at most once).
\<close>

fun each_sensor ::
  "(sensor_data \<Rightarrow> py_error + string list) \<Rightarrow> sensor_data list \<Rightarrow> py_error + string list" where
  "each_sensor f [] = Inr []"
| "each_sensor f (sensor # rest) =
     (case f sensor of
        Inl e \<Rightarrow> Inl e
      | Inr ls \<Rightarrow> (case each_sensor f rest of Inl e \<Rightarrow> Inl e | Inr later \<Rightarrow> Inr (ls @ later)))"

definition motion_entry ::
  "'a pylib_scheme \<Rightarrow> (string \<Rightarrow> int) \<Rightarrow> sensor_data \<Rightarrow> py_error + string list" where
  "motion_entry L now_at sensor =
     (let time_ago = get_time_ago L (now_at (sd_id sensor)) (sd_lastupdated sensor) in
      case py_get (sd_state sensor) ''presence'' (JBool False) of
        Inl e \<Rightarrow> Inl e
      | Inr presence \<Rightarrow>
     (case py_get (sd_config sensor) ''battery'' (JStr ''N/A'') of
        Inl e \<Rightarrow> Inl e
      | Inr battery \<Rightarrow>
          (let status = (if truthy presence then ''MOTION DETECTED'' else ''No motion'') in
           Inr [fmt L (sd_name sensor) @ '' (ID '' @ sd_id sensor @ '')'',
                ''  Status: '' @ status,
                ''  Last updated: '' @ time_ago,
                ''  Battery: '' @ fmt L battery @ ''%'',
                []])))"

text \<open>
  \<^verbatim>\<open>temp / 100.0\<close> needs a number (a boolean counts as 0 or 1), and an integer too
  large for a float raises \<^verbatim>\<open>OverflowError\<close>; the degree sign of the line is the two
  bytes of its UTF-8 encoding.
\<close>

definition temperature_reading :: "'a pylib_scheme \<Rightarrow> sensor_data \<Rightarrow> py_error + string list" where
  "temperature_reading L sensor =
     (if sd_type sensor = JStr ''ZLLTemperature'' then
        (case py_get (sd_state sensor) ''temperature'' JNull of
           Inl e \<Rightarrow> Inl e
         | Inr temp \<Rightarrow>
             if temp \<noteq> JNull then
               (case temp of
                  JNum n \<Rightarrow>
                    if fits_float n
                    then Inr [''  Temperature: '' @ str_centi L n @ [CHR 0xC2, CHR 0xB0] @ ''C'']
                    else Inl OverflowError
                | JBool b \<Rightarrow>
                    Inr [''  Temperature: '' @ str_centi L (if b then 1 else 0)
                         @ [CHR 0xC2, CHR 0xB0] @ ''C'']
                | _ \<Rightarrow> Inl TypeError)
             else Inr [''  Temperature: N/A''])
      else if sd_type sensor = JStr ''ZLLLightLevel'' then
        (case py_get (sd_state sensor) ''lightlevel'' JNull of
           Inl e \<Rightarrow> Inl e
         | Inr lightlevel \<Rightarrow>
             if lightlevel \<noteq> JNull then Inr [''  Light level: '' @ fmt L lightlevel]
             else Inr [''  Light level: N/A''])
      else Inr [])"

definition temperature_entry ::
  "'a pylib_scheme \<Rightarrow> (string \<Rightarrow> int) \<Rightarrow> sensor_data \<Rightarrow> py_error + string list" where
  "temperature_entry L now_at sensor =
     (let time_ago = get_time_ago L (now_at (sd_id sensor)) (sd_lastupdated sensor) in
      case py_get (sd_config sensor) ''battery'' (JStr ''N/A'') of
        Inl e \<Rightarrow> Inl e
      | Inr battery \<Rightarrow>
     (case temperature_reading L sensor of
        Inl e \<Rightarrow> Inl e
      | Inr reading \<Rightarrow>
          Inr ([fmt L (sd_name sensor) @ '' (ID '' @ sd_id sensor @ '') - ''
                  @ fmt L (sd_type sensor)]
               @ reading
               @ [''  Last updated: '' @ time_ago,
                  ''  Battery: '' @ fmt L battery @ ''%'',
                  []])))"

definition dimmer_entry ::
  "'a pylib_scheme \<Rightarrow> (string \<Rightarrow> int) \<Rightarrow> sensor_data \<Rightarrow> py_error + string list" where
  "dimmer_entry L now_at sensor =
     (let time_ago = get_time_ago L (now_at (sd_id sensor)) (sd_lastupdated sensor) in
      case py_get (sd_state sensor) ''buttonevent'' JNull of
        Inl e \<Rightarrow> Inl e
      | Inr button_event \<Rightarrow>
     (case py_get (sd_config sensor) ''battery'' (JStr ''N/A'') of
        Inl e \<Rightarrow> Inl e
      | Inr battery \<Rightarrow>
          Inr ([fmt L (sd_name sensor) @ '' (ID '' @ sd_id sensor @ '')'']
               @ (if truthy button_event then [''  Last button: '' @ fmt L button_event] else [])
               @ [''  Last pressed: '' @ time_ago,
                  ''  Battery: '' @ fmt L battery @ ''%'',
                  []])))"

definition other_entry ::
  "'a pylib_scheme \<Rightarrow> (string \<Rightarrow> int) \<Rightarrow> sensor_data \<Rightarrow> py_error + string list" where
  "other_entry L now_at sensor =
     (let time_ago = get_time_ago L (now_at (sd_id sensor)) (sd_lastupdated sensor) in
      Inr [fmt L (sd_name sensor) @ '' (ID '' @ sd_id sensor @ '') - '' @ fmt L (sd_type sensor),
           ''  Last updated: '' @ time_ago,
           ''  State: '' @ fmt L (sd_state sensor),
           []])"

text \<open>A section is printed only for a list that is not empty.\<close>

definition section_lines ::
  "string \<Rightarrow> (sensor_data \<Rightarrow> py_error + string list) \<Rightarrow> sensor_data list
   \<Rightarrow> py_error + string list" where
  "section_lines title entry sensors =
     (if sensors \<noteq> [] then
        (case each_sensor entry sensors of
           Inl e \<Rightarrow> Inl e
         | Inr ls \<Rightarrow> Inr ([title, replicate 80 CHR ''-''] @ ls))
      else Inr [])"

definition report_lines ::
  "'a pylib_scheme \<Rightarrow> (string \<Rightarrow> int) \<Rightarrow> buckets \<Rightarrow> py_error + string list" where
  "report_lines L now_at b =
     (case section_lines ''MOTION SENSORS'' (motion_entry L now_at) (motion_sensors b) of
        Inl e \<Rightarrow> Inl e
      | Inr l1 \<Rightarrow>
     (case section_lines ''TEMPERATURE/LIGHT SENSORS'' (temperature_entry L now_at)
             (temperature_sensors b) of
        Inl e \<Rightarrow> Inl e
      | Inr l2 \<Rightarrow>
     (case section_lines ''DIMMER SWITCHES'' (dimmer_entry L now_at) (dimmer_switches b) of
        Inl e \<Rightarrow> Inl e
      | Inr l3 \<Rightarrow>
     (case section_lines ''OTHER SENSORS'' (other_entry L now_at) (other_sensors b) of
        Inl e \<Rightarrow> Inl e
      | Inr l4 \<Rightarrow> Inr (l1 @ l2 @ l3 @ l4)))))"

text \<open>
  \<open>fetched\<close> is what the \<^verbatim>\<open>try\<close> around the request leaves: the text of the
  exception it caught, or the document of the answer.
\<close>

definition list_sensor_activity ::
  "'a pylib_scheme \<Rightarrow> (string \<Rightarrow> int) \<Rightarrow> string + json \<Rightarrow> py_error + string list" where
  "list_sensor_activity L now_at fetched =
     (case fetched of
        Inl e \<Rightarrow> Inr [''Error connecting to Hue Bridge: '' @ e]
      | Inr sensors \<Rightarrow>
     (case py_items sensors of
        Inl e \<Rightarrow> Inl e
      | Inr items \<Rightarrow>
     (case group_sensors no_sensors items of
        Inl e \<Rightarrow> Inl e
      | Inr b \<Rightarrow>
     (case report_lines L now_at b of
        Inl e \<Rightarrow> Inl e
      | Inr ls \<Rightarrow>
          Inr ([replicate 80 CHR ''='', ''HUE SENSOR ACTIVITY'', replicate 80 CHR ''='', []]
               @ ls)))))"


subsection \<open>Notions the properties of the report are stated with\<close>

text \<open>\<^verbatim>\<open>key in d\<close>: whether a dictionary has the key.\<close>

fun has_key :: "json \<Rightarrow> string \<Rightarrow> bool" where
  "has_key (JObj kvs) key = (map_of kvs key \<noteq> None)"
| "has_key _ key = False"

text \<open>In how many of the four lists a sensor's entry occurs.\<close>

definition buckets_holding :: "buckets \<Rightarrow> sensor_data \<Rightarrow> nat" where
  "buckets_holding b d =
     length (filter (\<lambda>l. d \<in> set l)
       [motion_sensors b, temperature_sensors b, dimmer_switches b, other_sensors b])"

text \<open>
  A record whose fields have the types the report relies on, as far as the fields are
  there: the state, if present, is a dictionary whose temperature, if present, is
  \<^verbatim>\<open>None\<close> or a number that fits a float; the configuration, if present, is a
  dictionary. Nothing is asked of a field that is missing.
\<close>

fun is_dict :: "json \<Rightarrow> bool" where
  "is_dict (JObj kvs) = True"
| "is_dict _ = False"

fun number_or_none :: "json \<Rightarrow> bool" where
  "number_or_none JNull = True"
| "number_or_none (JNum n) = fits_float n"
| "number_or_none (JBool b) = True"
| "number_or_none _ = False"

definition state_well_typed :: "json \<Rightarrow> bool" where
  "state_well_typed state =
     (case state of
        JObj kvs \<Rightarrow>
          (case map_of kvs ''temperature'' of None \<Rightarrow> True | Some t \<Rightarrow> number_or_none t)
      | _ \<Rightarrow> False)"

definition present_fields_well_typed :: "json \<Rightarrow> bool" where
  "present_fields_well_typed sensor_info =
     (case sensor_info of
        JObj entries \<Rightarrow>
          (case map_of entries ''state'' of None \<Rightarrow> True | Some state \<Rightarrow> state_well_typed state)
          \<and> (case map_of entries ''config'' of None \<Rightarrow> True | Some config \<Rightarrow> is_dict config)
      | _ \<Rightarrow> False)"

text \<open>The same for the entry built from a record, and for all entries of the lists.\<close>

definition sound_data :: "sensor_data \<Rightarrow> bool" where
  "sound_data d = (state_well_typed (sd_state d) \<and> is_dict (sd_config d))"

definition all_sound :: "buckets \<Rightarrow> bool" where
  "all_sound b =
     list_all sound_data
       (motion_sensors b @ temperature_sensors b @ dimmer_switches b @ other_sensors b)"

text \<open>
  The lines that \<open>entry\<close> gives for the sensor \<open>d\<close> stand together among the lines
  printed, and \<open>line\<close> is one of them.
\<close>

definition shown_in ::
  "string list \<Rightarrow> (sensor_data \<Rightarrow> py_error + string list) \<Rightarrow> string \<Rightarrow> sensor_data
   \<Rightarrow> bool" where
  "shown_in lines entry line d =
     (\<exists>ls pre post. entry d = Inr ls \<and> lines = pre @ ls @ post \<and> line \<in> set ls)"


section \<open>list_lights.py\<close>

text \<open>
  Line 45, \<^verbatim>\<open>f"{int(bri/254*100)}%" if on else "N/A"\<close>: the arithmetic is evaluated
  only when \<^verbatim>\<open>on\<close> is true, and then \<^verbatim>\<open>bri\<close> must be a number. The float
  arithmetic is idealised as real arithmetic. For a brightness of the device's scale
  the two agree: \<open>bri * 100 / 254\<close> is a whole number only for 0, 127 and 254, where
  the float computation is exact, and is at least \<open>1 / 127\<close> away from one otherwise.
\<close>

definition brightness_text :: "json \<Rightarrow> json \<Rightarrow> py_error + string" where
  "brightness_text on bri =
     (if truthy on then
        (case bri of
           JNum n \<Rightarrow> Inr (str_int (py_int (real_of_int n / 254 * 100)) @ ''%'')
         | JBool b \<Rightarrow> Inr (str_int (py_int ((if b then 1 else 0) / 254 * 100)) @ ''%'')
         | _ \<Rightarrow> Inl TypeError)
      else Inr ''N/A'')"

text \<open>The body of the loop over \<^verbatim>\<open>lights.items()\<close> (lines 38 to 51).\<close>

definition light_entry :: "'a pylib_scheme \<Rightarrow> string \<Rightarrow> json \<Rightarrow> py_error + string list" where
  "light_entry L light_id light_info =
     (case py_get light_info ''name'' (JStr ''Unknown'') of
        Inl e \<Rightarrow> Inl e
      | Inr name \<Rightarrow>
     (case py_get light_info ''state'' (JObj []) of
        Inl e \<Rightarrow> Inl e
      | Inr state \<Rightarrow>
     (case py_get state ''on'' (JBool False) of
        Inl e \<Rightarrow> Inl e
      | Inr on \<Rightarrow>
     (case py_get state ''bri'' (JNum 0) of
        Inl e \<Rightarrow> Inl e
      | Inr bri \<Rightarrow>
     (case py_get light_info ''modelid'' (JStr ''Unknown'') of
        Inl e \<Rightarrow> Inl e
      | Inr model \<Rightarrow>
          (let status = (if truthy on then ''ON'' else ''OFF'') in
           case brightness_text on bri of
             Inl e \<Rightarrow> Inl e
           | Inr brightness \<Rightarrow>
               Inr [''ID '' @ light_id @ '': '' @ fmt L name,
                    ''  Status: '' @ status,
                    ''  Brightness: '' @ brightness,
                    ''  Model: '' @ fmt L model,
                    []]))))))"

fun each_light ::
  "'a pylib_scheme \<Rightarrow> (string \<times> json) list \<Rightarrow> py_error + string list" where
  "each_light L [] = Inr []"
| "each_light L ((light_id, light_info) # rest) =
     (case light_entry L light_id light_info of
        Inl e \<Rightarrow> Inl e
      | Inr ls \<Rightarrow> (case each_light L rest of Inl e \<Rightarrow> Inl e | Inr later \<Rightarrow> Inr (ls @ later)))"

definition BRIDGE_IP :: string where
  "BRIDGE_IP = ''192.168.68.62''"

text \<open>\<open>lights\<close> is the document of the bridge's answer.\<close>

definition list_lights :: "'a pylib_scheme \<Rightarrow> json \<Rightarrow> py_error + string list" where
  "list_lights L lights =
     (case py_items lights of
        Inl e \<Rightarrow> Inl e
      | Inr items \<Rightarrow>
     (case each_light L items of
        Inl e \<Rightarrow> Inl e
      | Inr ls \<Rightarrow>
          Inr ([''\<newline>'' @ replicate 60 CHR ''='',
                ''Hue Lights on Bridge '' @ BRIDGE_IP,
                replicate 60 CHR ''='' @ ''\<newline>'']
               @ ls)))"


section \<open>The scripts that push a configuration\<close>

text \<open>
  \<^verbatim>\<open>simplify_office_dimmer.py\<close>, \<^verbatim>\<open>simplify_office_v2.py\<close> and
  \<^verbatim>\<open>update_outdoor_automation.py\<close> each build one document, PUT it to one resource
  of the bridge and print what the answer was. The document is a constant of the
  script; a request is recorded by its URL. The bridge is a function from the URL to
  the exception that \<^verbatim>\<open>requests.put\<close> raises or to the response. Of a response the
  scripts read the status code, the body as text, and the body as a document
  (\<^verbatim>\<open>response.json()\<close>, which raises on a body that is no JSON).
\<close>

record response =
  status_code :: int
  text_body :: string
  json_body :: "json option"

datatype push_event = Request string | Printed string

datatype push_error = RequestException | JSONDecodeError

type_synonym bridge = "string \<Rightarrow> push_error + response"

type_synonym run = "push_event list \<times> push_error option"

definition behavior_url :: "string \<Rightarrow> string" where
  "behavior_url behavior_id =
     ''https://'' @ BRIDGE_IP @ ''/clip/v2/resource/behavior_instance/'' @ behavior_id"

subsection \<open>simplify_office_dimmer.py\<close>

definition simplify_office_dimmer :: "'a pylib_scheme \<Rightarrow> bridge \<Rightarrow> run" where
  "simplify_office_dimmer L put =
     (let url = behavior_url ''5915920b-c177-4773-b7f1-258e56200338'';
          before =
            [Printed ''Simplifying OfficeDimmer...'',
             Printed (replicate 80 CHR ''=''),
             Printed ''New configuration:'',
             Printed ''  ON button: Turn on at 100% brightness'',
             Printed ''  OFF button: Turn off'',
             Printed ''  Brighten/Dim buttons: Keep as-is'',
             Printed (replicate 80 CHR ''=''),
             Request url]
      in case put url of
           Inl e \<Rightarrow> (before, Some e)
         | Inr response \<Rightarrow>
             if status_code response = 200 then
               (case json_body response of
                  None \<Rightarrow>
                    (before @ [Printed ''\<newline>[SUCCESS] OfficeDimmer simplified!''],
                     Some JSONDecodeError)
                | Some echo \<Rightarrow>
                    (before @ [Printed ''\<newline>[SUCCESS] OfficeDimmer simplified!'',
                               Printed (dumps_indent2 L echo)],
                     None))
             else
               (before @ [Printed (''\<newline>[ERROR] Status: '' @ str_int (status_code response)),
                          Printed (text_body response)],
                None))"

subsection \<open>simplify_office_v2.py\<close>

text \<open>
  \<^verbatim>\<open>response.text[:500]\<close> keeps the first 500 characters. In the UTF-8 bytes of a
  text a character is one byte that is no continuation byte, followed by its
  continuation bytes (those from \<open>0x80\<close> to \<open>0xBF\<close>).
\<close>

definition is_continuation :: "char \<Rightarrow> bool" where
  "is_continuation c = (128 \<le> (of_char c :: nat) \<and> (of_char c :: nat) < 192)"

fun take_chars :: "nat \<Rightarrow> string \<Rightarrow> string" where
  "take_chars 0 s = []"
| "take_chars (Suc n) [] = []"
| "take_chars (Suc n) (c # cs) =
     c # takeWhile is_continuation cs @ take_chars n (dropWhile is_continuation cs)"

definition simplify_office_v2 :: "bridge \<Rightarrow> run" where
  "simplify_office_v2 put =
     (let url = behavior_url ''5915920b-c177-4773-b7f1-258e56200338'';
          before =
            [Printed ''Simplifying OfficeDimmer...'',
             Printed (replicate 80 CHR ''=''),
             Request url]
      in case put url of
           Inl e \<Rightarrow> (before, Some e)
         | Inr response \<Rightarrow>
             if status_code response = 200 then
               (before @ [Printed ''[SUCCESS] OfficeDimmer simplified!'',
                          Printed ''  ON button: Turn all lights ON at 100%'',
                          Printed ''  OFF button: Turn all lights OFF'',
                          Printed ''  Brighten/Dim: Still work''],
                None)
             else
               (before @ [Printed (''[ERROR] Status: '' @ str_int (status_code response)),
                          Printed (take_chars 500 (text_body response))],
                None))"

subsection \<open>update_outdoor_automation.py\<close>

text \<open>The check mark and the cross of its two messages are written as UTF-8 bytes.\<close>

definition update_outdoor_automation :: "'a pylib_scheme \<Rightarrow> bridge \<Rightarrow> run" where
  "update_outdoor_automation L put =
     (let url = behavior_url ''3853720c-0c70-41ee-b2f5-b83a65e39090'';
          before =
            [Printed ''Updating outdoor sensor automation...'',
             Printed (replicate 80 CHR ''=''),
             Printed ''New behavior:'',
             Printed ''  - Active 24/7 (00:00-00:00)'',
             Printed ''  - Only triggers when DARK (based on light sensor)'',
             Printed ''  - On motion: Turn on Bright scenes in Kitchen/hall/Outside'',
             Printed ''  - After 10 min no motion: Return to PREVIOUS STATE'',
             Printed (replicate 80 CHR ''=''),
             Request url]
      in case put url of
           Inl e \<Rightarrow> (before, Some e)
         | Inr response \<Rightarrow>
             if status_code response = 200 then
               (case json_body response of
                  None \<Rightarrow>
                    (before @ [Printed (''\<newline>'' @ [CHR 0xE2, CHR 0x9C, CHR 0x93]
                                 @ '' Automation updated successfully!'')],
                     Some JSONDecodeError)
                | Some echo \<Rightarrow>
                    (before @ [Printed (''\<newline>'' @ [CHR 0xE2, CHR 0x9C, CHR 0x93]
                                 @ '' Automation updated successfully!''),
                               Printed (dumps_indent2 L echo)],
                     None))
             else
               (before @ [Printed (''\<newline>'' @ [CHR 0xE2, CHR 0x9C, CHR 0x97] @ '' Error: ''
                                   @ str_int (status_code response)),
                          Printed (text_body response)],
                None))"

text \<open>The bridge that answers every request with the response \<open>r\<close>.\<close>

definition answering :: "response \<Rightarrow> bridge" where
  "answering r = (\<lambda>url. Inr r)"

text \<open>What a run printed after its request, and the requests it made.\<close>

definition requests_made :: "run \<Rightarrow> string list" where
  "requests_made r = concat (map (\<lambda>e. case e of Request u \<Rightarrow> [u] | Printed _ \<Rightarrow> []) (fst r))"

fun printed_after_request :: "push_event list \<Rightarrow> string list" where
  "printed_after_request [] = []"
| "printed_after_request (Request u # rest) =
     concat (map (\<lambda>e. case e of Request _ \<Rightarrow> [] | Printed s \<Rightarrow> [s]) rest)"
| "printed_after_request (Printed s # rest) = printed_after_request rest"


section \<open>A library instance for concrete runs\<close>

text \<open>
  Where a property is run on a concrete input, Python's library is this instance. It
  reads two timestamps, both the instant 2025-01-01 00:00:00 UTC (1735689600 seconds
  after the epoch): one without a zone, one with the zone +01:00. It rejects every
  other string.
\<close>

definition example_lib :: pylib where
  "example_lib =
     \<lparr>repr_container = (\<lambda>v. ''<container>''),
      str_centi = (\<lambda>n. str_int n @ ''/100''),
      dumps_indent2 = (\<lambda>v. ''<json>''),
      fromisoformat =
        (\<lambda>s. if s = ''2025-01-01T00:00:00'' then Some \<lparr>wall = 1735689600000000, tzinfo = None\<rparr>
             else if s = ''2025-01-01T01:00:00+01:00''
               then Some \<lparr>wall = 1735693200000000, tzinfo = Some 3600000000\<rparr>
             else None)\<rparr>"


text \<open>A clock that reads 90 seconds after that instant for every sensor.\<close>

definition example_clock :: "string \<Rightarrow> int" where
  "example_clock sensor_id = 1735689690000000"

text \<open>
  Two sensor documents of one record each. Both records lack a name and a
  configuration; the first is a temperature sensor whose temperature is the integer
  \<open>10 ^ 400\<close>, the second has \<^verbatim>\<open>null\<close> for its state and lacks a type too.
\<close>

definition hot_sensors :: "(string \<times> json) list" where
  "hot_sensors =
     [(''1'', JObj [(''type'', JStr ''ZLLTemperature''),
                  (''state'', JObj [(''temperature'', JNum (10 ^ 400))])])]"

definition stateless_sensors :: "(string \<times> json) list" where
  "stateless_sensors = [(''1'', JObj [(''state'', JNull)])]"

text \<open>
  A sensor document with one record of every kind: the four types with a list of
  their own, the two types that are dropped, an unknown type, and a record with no
  field at all.
\<close>

definition example_sensors :: "(string \<times> json) list" where
  "example_sensors =
     [(''1'', JObj [(''type'', JStr ''ZLLPresence''), (''name'', JStr ''Hall''),
                  (''state'', JObj [(''presence'', JBool True),
                                   (''lastupdated'', JStr ''2025-01-01T00:00:00'')]),
                  (''config'', JObj [(''battery'', JNum 80)])]),
      (''2'', JObj [(''type'', JStr ''ZLLTemperature''), (''name'', JStr ''Hall temp''),
                  (''state'', JObj [(''temperature'', JNum 2150)])]),
      (''3'', JObj [(''type'', JStr ''ZLLLightLevel''), (''name'', JStr ''Hall lux'')]),
      (''4'', JObj [(''type'', JStr ''ZLLSwitch''), (''name'', JStr ''Dimmer'')]),
      (''5'', JObj [(''type'', JStr ''Daylight'')]),
      (''6'', JObj [(''type'', JStr ''CLIPGenericStatus'')]),
      (''7'', JObj [(''type'', JStr ''Geofence'')]),
      (''8'', JObj [])]"


text \<open>A light named "Desk" with a given on/off value and brightness.\<close>

definition example_light :: "json \<Rightarrow> json \<Rightarrow> json" where
  "example_light on bri =
     JObj [(''name'', JStr ''Desk''), (''state'', JObj [(''on'', on), (''bri'', bri)])]"

text \<open>
  Five responses of the bridge: status 201 with an empty JSON object, status 404 with
  a text that is no JSON, status 200 with an empty JSON object, status 200 with a text
  that is no JSON, and status 500 with a text of 501 characters.
\<close>

definition created :: response where
  "created = \<lparr>status_code = 201, text_body = ''{}'', json_body = Some (JObj [])\<rparr>"

definition not_found :: response where
  "not_found = \<lparr>status_code = 404, text_body = ''Not Found'', json_body = None\<rparr>"

definition accepted :: response where
  "accepted = \<lparr>status_code = 200, text_body = ''{}'', json_body = Some (JObj [])\<rparr>"

definition accepted_plain :: response where
  "accepted_plain = \<lparr>status_code = 200, text_body = ''OK'', json_body = None\<rparr>"

definition long_failure :: response where
  "long_failure =
     \<lparr>status_code = 500, text_body = replicate 501 CHR ''x'', json_body = None\<rparr>"


section \<open>Properties of the colour loop\<close>

subsection \<open>The colour bands\<close>

lemma color_tables:
  "length color_names = 8" "length color_thresholds = 9"
  "distinct color_names" "sorted color_thresholds"
  by (simp_all add: color_names_def color_thresholds_def)

lemma get_color_name_band:
  assumes "0 \<le> h" "h < 65535" "k < 8"
  shows "(get_color_name h = color_names ! k) =
         (color_thresholds ! k \<le> h \<and> h < color_thresholds ! Suc k)"
proof -
  from \<open>k < 8\<close>
  consider "k = 0" | "k = 1" | "k = 2" | "k = 3" | "k = 4" | "k = 5" | "k = 6" | "k = 7"
    by linarith
  then show ?thesis
    using assms(1,2)
    by cases (simp_all add: get_color_name_def color_names_def color_thresholds_def)
qed

lemma get_color_name_index: "\<exists>i<8. get_color_name h = color_names ! i"
proof -
  have "get_color_name h \<in> set color_names"
    by (simp add: get_color_name_def color_names_def)
  then show ?thesis
    by (metis color_tables(1) in_set_conv_nth)
qed

lemma get_color_name_mono:
  assumes "0 \<le> h" "h \<le> h'" "h' < 65535"
    and i: "i < 8" "get_color_name h = color_names ! i"
    and j: "j < 8" "get_color_name h' = color_names ! j"
  shows "i \<le> j"
proof (rule ccontr)
  assume "\<not> i \<le> j"
  then have "Suc j \<le> i" by simp
  then have "color_thresholds ! Suc j \<le> color_thresholds ! i"
    using i(1) by (intro sorted_nth_mono) (simp_all add: color_tables)
  moreover have "color_thresholds ! i \<le> h"
    using get_color_name_band [of h i] assms i by simp
  moreover have "h' < color_thresholds ! Suc j"
    using get_color_name_band [of h' j] assms j by simp
  ultimately show False using \<open>h \<le> h'\<close> by simp
qed

text \<open>
  C4. For every hue \<open>h\<close> in \<open>[0, 65535)\<close> the colour name is exactly one of the 8
  labels; it is the \<open>k\<close>-th label exactly when \<open>h\<close> lies between the \<open>k\<close>-th threshold
  (inclusive) and the next one (exclusive), the thresholds being 0, 3000, 8000, 16000,
  30000, 40000, 48000, 54000 and the end of the range; a larger hue never gets an
  earlier label; and 0 and 2999 are Red, 3000 is Orange, 65534 is Pink.
\<close>

theorem get_color_name_step_function:
  assumes "0 \<le> h" "h \<le> h'" "h' < 65535"
  shows "(\<exists>!i. i < 8 \<and> get_color_name h = color_names ! i)
       \<and> (\<forall>k<8. (get_color_name h = color_names ! k) =
                  (color_thresholds ! k \<le> h \<and> h < color_thresholds ! Suc k))
       \<and> (\<forall>i j. i < 8 \<longrightarrow> j < 8 \<longrightarrow> get_color_name h = color_names ! i \<longrightarrow>
                  get_color_name h' = color_names ! j \<longrightarrow> i \<le> j)
       \<and> color_thresholds = [0, 3000, 8000, 16000, 30000, 40000, 48000, 54000, 65535]
       \<and> get_color_name 0 = ''Red'' \<and> get_color_name 2999 = ''Red''
       \<and> get_color_name 3000 = ''Orange'' \<and> get_color_name 65534 = ''Pink''"
proof -
  have one: "\<exists>!i. i < 8 \<and> get_color_name h = color_names ! i"
  proof -
    obtain i where i: "i < 8" "get_color_name h = color_names ! i"
      using get_color_name_index by blast
    have "j = i" if "j < 8" "get_color_name h = color_names ! j" for j
      using that i color_tables(1,3) by (simp add: nth_eq_iff_index_eq)
    with i show ?thesis by blast
  qed
  have band: "\<forall>k<8. (get_color_name h = color_names ! k) =
                     (color_thresholds ! k \<le> h \<and> h < color_thresholds ! Suc k)"
    using get_color_name_band [of h] assms by simp
  have mono: "\<forall>i j. i < 8 \<longrightarrow> j < 8 \<longrightarrow> get_color_name h = color_names ! i \<longrightarrow>
                     get_color_name h' = color_names ! j \<longrightarrow> i \<le> j"
    using get_color_name_mono [OF assms] by blast
  have points: "get_color_name 0 = ''Red''" "get_color_name 2999 = ''Red''"
    "get_color_name 3000 = ''Orange''" "get_color_name 65534 = ''Pink''"
    by (simp_all add: get_color_name_def)
  show ?thesis
    using one band mono points by (simp add: color_thresholds_def)
qed

theorem get_color_name_step_function_witness:
  "(0::int) \<le> 2999 \<and> (2999::int) \<le> 3000 \<and> (3000::int) < 65535
   \<and> get_color_name 2999 = color_names ! 0 \<and> get_color_name 3000 = color_names ! 1
   \<and> color_thresholds ! 0 \<le> (2999::int) \<and> (2999::int) < color_thresholds ! Suc 0"
  using get_color_name_step_function [of 2999 3000]
  by (simp add: get_color_name_def color_names_def color_thresholds_def)

subsection \<open>The hue advance\<close>

lemma next_hue_range: "0 \<le> next_hue h \<and> next_hue h < 65535"
  by (simp add: next_hue_def)

lemma next_hue_funpow: "(next_hue ^^ n) 0 = (5000 * int n) mod 65535"
proof (induction n)
  case 0
  then show ?case by simp
next
  case (Suc n)
  have "(next_hue ^^ Suc n) 0 = ((5000 * int n) mod 65535 + 5000) mod 65535"
    by (simp add: Suc next_hue_def)
  also have "\<dots> = (5000 * int n + 5000) mod 65535"
    by (simp add: mod_add_left_eq)
  finally show ?case by (simp add: algebra_simps)
qed

lemma color_loop_from_hue_range:
  "0 \<le> hue \<Longrightarrow> hue < 65535 \<Longrightarrow>
   0 \<le> fst (snd (color_loop_from n d speed elapsed k hue done)) \<and>
   fst (snd (color_loop_from n d speed elapsed k hue done)) < 65535"
  by (induction n arbitrary: k hue "done") (simp_all add: next_hue_range)

lemma color_loop_from_forever_hue:
  "fst (snd (color_loop_from n None speed elapsed k hue done)) = (next_hue ^^ n) hue"
  by (induction n arbitrary: k hue "done")
     (simp_all add: duration_exceeded_def funpow_swap1)

text \<open>
  C5. The hue advance of a tick is \<open>(h + 5000) mod 65535\<close> for every hue \<open>h\<close>. Iterated
  any number \<open>n\<close> of times from 0 it gives \<open>5000 * n mod 65535\<close>, which is never negative
  and stays below 65535; after 14 times it is 4465. The hue the loop holds after \<open>n\<close>
  passes without a duration is that value, and whatever the duration and the clock, the
  hue the loop holds is in the range.
\<close>

theorem next_hue_stays_in_range:
  "next_hue h = (h + 5000) mod 65535
   \<and> 0 \<le> (next_hue ^^ n) 0 \<and> (next_hue ^^ n) 0 < 65535
   \<and> (next_hue ^^ 14) 0 = 4465
   \<and> fst (snd (color_loop n None speed elapsed)) = (next_hue ^^ n) 0
   \<and> 0 \<le> fst (snd (color_loop n d speed elapsed))
   \<and> fst (snd (color_loop n d speed elapsed)) < 65535"
proof -
  have "0 \<le> (next_hue ^^ n) 0 \<and> (next_hue ^^ n) 0 < 65535"
    by (simp add: next_hue_funpow)
  moreover have "(next_hue ^^ 14) 0 = 4465"
    by (simp add: next_hue_funpow)
  moreover have "fst (snd (color_loop n None speed elapsed)) = (next_hue ^^ n) 0"
    by (simp add: color_loop_def color_loop_from_forever_hue)
  moreover have "0 \<le> fst (snd (color_loop n d speed elapsed))
      \<and> fst (snd (color_loop n d speed elapsed)) < 65535"
    unfolding color_loop_def by (rule color_loop_from_hue_range) simp_all
  ultimately show ?thesis
    by (simp add: next_hue_def)
qed

subsection \<open>The duration\<close>

lemma color_loop_from_zero:
  "color_loop_from n (Some 0) speed elapsed k hue done =
   color_loop_from n None speed elapsed k hue done"
  by (induction n arbitrary: k hue "done") (simp_all add: duration_exceeded_def)

lemma color_loop_from_forever_running:
  "fst (color_loop_from n None speed elapsed k hue done) = Running"
  by (induction n arbitrary: k hue "done") (simp_all add: duration_exceeded_def)

lemma color_loop_from_forever_puts:
  "length (filter is_put (snd (snd (color_loop_from n None speed elapsed k hue done)))) =
   length (filter is_put done) + 2 * n"
  by (induction n arbitrary: k hue "done")
     (simp_all add: duration_exceeded_def tick_events_def LOUNGE_COLOR_LIGHTS_def is_put_def)

text \<open>
  A negative duration does stop the loop at its first check, before any request, as
  long as the clock has not gone backwards.
\<close>

lemma color_loop_negative_duration:
  "d < 0 \<Longrightarrow> 0 \<le> elapsed 0 \<Longrightarrow>
   color_loop (Suc n) (Some d) speed elapsed =
     (Stopped, 0,
      [Print (duration_banner (Some d)), Print [],
       Print ''\<newline>Duration reached. Stopping color loop.''])"
  by (simp add: color_loop_def duration_exceeded_def)

text \<open>
  C1. The claim is that only an absent duration means "run forever" and that an explicit
  duration of zero or less stops the loop at the first check. The code does otherwise for
  an explicit zero: with \<^verbatim>\<open>duration_seconds = 0\<close> the loop does exactly what it does
  with no duration. It announces "Forever", and however many passes \<open>n\<close> it is given
  and whatever the clock reads, it is still running after them and has sent two
  requests in each.
\<close>

theorem color_loop_zero_duration_runs_forever:
  "color_loop n (Some 0) speed elapsed = color_loop n None speed elapsed
   \<and> fst (color_loop n (Some 0) speed elapsed) = Running
   \<and> length (filter is_put (snd (snd (color_loop n (Some 0) speed elapsed)))) = 2 * n
   \<and> duration_banner (Some 0) = ''Duration: Forever (press Ctrl+C to stop)''"
  by (simp add: color_loop_def color_loop_from_zero color_loop_from_forever_running
      color_loop_from_forever_puts duration_banner_def is_put_def)

section \<open>Properties of the relative-time label\<close>

subsection \<open>The float quotient\<close>

lemma bitlen_million: "bitlen 1000000 = 20"
  by code_simp

lemma round_half_even_cases:
  assumes "0 < b"
  shows "round_half_even n b = n div b
       \<or> (round_half_even n b = n div b + 1 \<and> b \<le> 2 * (n mod b))"
  by (auto simp add: round_half_even_def Let_def)

lemma round_scaled_div:
  fixes m P :: int
  assumes "0 \<le> m" "524288 \<le> P"
  shows "round_half_even (m * P) 1000000 div P = m div 1000000"
proof -
  define s where "s = m div 1000000"
  define t where "t = m mod 1000000"
  define N where "N = m * P"
  define S where "S = s * P"
  define d where "d = N div 1000000"
  define r where "r = N mod 1000000"
  define q where "q = round_half_even N 1000000"
  have m: "m = 1000000 * s + t" and t: "0 \<le> t" "t \<le> 999999"
    by (simp_all add: s_def t_def)
  have "N = 1000000 * S + t * P"
    by (simp add: N_def S_def m algebra_simps)
  moreover have "0 \<le> t * P" "t * P \<le> 999999 * P"
    using t assms(2) by (simp_all add: mult_right_mono)
  ultimately have N: "1000000 * S \<le> N" "N \<le> 1000000 * S + 999999 * P"
    by simp_all
  have split: "N = 1000000 * d + r" and r: "0 \<le> r" "r < 1000000"
    by (simp_all add: d_def r_def)
  have q: "q = d \<or> (q = d + 1 \<and> 1000000 \<le> 2 * r)"
    using round_half_even_cases [of 1000000 N] by (simp add: q_def d_def r_def)
  have low: "S \<le> q" using N(1) split r q by linarith
  have high: "q < S + P" using N(2) split r q assms(2) by linarith
  define u where "u = q - S"
  have "q = u + s * P" "0 \<le> u" "u < P"
    using low high by (simp_all add: u_def S_def)
  then have "q div P = s"
    using assms(2) by simp
  then show ?thesis by (simp add: q_def N_def s_def)
qed


lemma round_half_even_lower:
  assumes "0 < b"
  shows "n div b \<le> round_half_even n b"
  using round_half_even_cases [OF assms, of n] by linarith

lemma py_int_minus: "py_int (- x) = - py_int x"
proof (cases "x = 0")
  case True
  then show ?thesis by (simp add: py_int_def)
next
  case False
  then show ?thesis by (auto simp add: py_int_def ceiling_def)
qed

lemma true_divide_minus: "true_divide (- a) b = - true_divide a b"
  by (simp add: true_divide_def Let_def)

lemma ratio_exponent_le: "ratio_exponent m b \<le> bitlen m - bitlen b"
  by (simp add: ratio_exponent_def Let_def)

text \<open>The value for a positive dividend, by the sign of the exponent.\<close>

lemma true_divide_pos:
  assumes "0 < a"
  shows "true_divide a b =
     (let e = ratio_exponent a b - 52
      in if 0 \<le> e then real_of_int (round_half_even a (b * 2 ^ nat e) * 2 ^ nat e)
         else real_of_int (round_half_even (a * 2 ^ nat (- e)) b) / 2 ^ nat (- e))"
  using assms by (simp add: true_divide_def Let_def)

lemma py_int_true_divide_pos_small:
  assumes "0 < a" "a < 2 ^ 53"
  shows "py_int (true_divide a 1000000) = a div 1000000"
proof -
  define e where "e = ratio_exponent a 1000000 - 52"
  define k where "k = nat (- e)"
  define q where "q = round_half_even (a * 2 ^ k) 1000000"
  have "bitlen a \<le> 53"
    using assms(2) by (simp add: bitlen_le_iff_power)
  then have e: "e \<le> - 19"
    using ratio_exponent_le [of a 1000000] by (simp add: e_def bitlen_million)
  then have k: "19 \<le> k" by (simp add: k_def)
  have "(2::int) ^ 19 \<le> 2 ^ k"
    using k by (intro power_increasing) simp_all
  then have P: "524288 \<le> (2::int) ^ k" by simp
  have quot: "true_divide a 1000000 = real_of_int q / real_of_int (2 ^ k)"
    using e assms(1) by (simp add: true_divide_pos Let_def e_def [symmetric] k_def q_def)
  have "0 \<le> a div 1000000"
    using assms(1) by (simp add: pos_imp_zdiv_nonneg_iff)
  moreover have "q div 2 ^ k = a div 1000000"
    unfolding q_def using assms(1) P by (intro round_scaled_div) simp_all
  moreover have "\<lfloor>real_of_int q / real_of_int (2 ^ k)\<rfloor> = q div 2 ^ k"
    by (rule floor_divide_of_int_eq)
  moreover have "0 \<le> real_of_int q / real_of_int (2 ^ k)"
  proof -
    have "0 \<le> (a * 2 ^ k) div 1000000"
      using assms(1) by (simp add: pos_imp_zdiv_nonneg_iff)
    then have "0 \<le> q"
      using round_half_even_lower [of 1000000 "a * 2 ^ k"] by (simp add: q_def)
    then show ?thesis by simp
  qed
  ultimately show ?thesis
    by (simp add: quot py_int_def)
qed

lemma py_int_true_divide_micros:
  assumes "\<bar>a\<bar> < 2 ^ 53"
  shows "py_int (true_divide a 1000000) =
     (if 0 \<le> a then a div 1000000 else - ((- a) div 1000000))"
proof -
  consider "a = 0" | "0 < a" | "a < 0" by linarith
  then show ?thesis
  proof cases
    case 1
    then show ?thesis by (simp add: true_divide_def py_int_def)
  next
    case 2
    then show ?thesis using assms py_int_true_divide_pos_small [of a] by simp
  next
    case 3
    then have "py_int (true_divide (- a) 1000000) = (- a) div 1000000"
      using assms by (intro py_int_true_divide_pos_small) simp_all
    then show ?thesis
      using 3 py_int_minus [of "true_divide (- a) 1000000"] true_divide_minus [of "- a" 1000000]
      by simp
  qed
qed




text \<open>
  The model follows the float where it rounds: a timestamp of
  1400-01-01T00:00:00.000001 read at 2025-01-01T00:00:00 UTC is 19723132799.999999
  seconds old, and the count is 19723132800.
\<close>

lemma true_divide_far_sample: "py_int (true_divide 19723132799999999 1000000) = 19723132800"
  by code_simp

subsection \<open>The count of seconds\<close>

lemma elapsed_seconds_diff:
  "elapsed_seconds now d = py_int (true_divide (now - utc_micros d) 1000000)"
  by (simp add: elapsed_seconds_def Let_def utc_micros_def split: option.splits)

lemma elapsed_seconds_eq:
  assumes "\<bar>now - utc_micros d\<bar> < 2 ^ 53"
  shows "elapsed_seconds now d =
     (if utc_micros d \<le> now then (now - utc_micros d) div 1000000
      else - ((utc_micros d - now) div 1000000))"
  using py_int_true_divide_micros [OF assms] by (simp add: elapsed_seconds_diff)

subsection \<open>The label\<close>

lemma str_int_samples:
  "str_int 0 = ''0''" "str_int 1 = ''1''" "str_int 2 = ''2''" "str_int 59 = ''59''"
  by (simp_all add: str_int_def str_nat.simps)

lemma time_ago_label_samples:
  "time_ago_label 0 = ''0 seconds ago''"
  "time_ago_label 59 = ''59 seconds ago''"
  "time_ago_label 60 = ''1 minute ago''"
  "time_ago_label 119 = ''1 minute ago''"
  "time_ago_label 120 = ''2 minutes ago''"
  "time_ago_label 3600 = ''1 hour ago''"
  "time_ago_label 86400 = ''1 day ago''"
  by (simp_all add: time_ago_label_def str_int_samples)

lemma get_time_ago_parsed:
  assumes "ts \<noteq> ''none''" "ts \<noteq> []" "fromisoformat L (replace_Z ts) = Some last_update"
  shows "get_time_ago L now (JStr ts) = time_ago_label (elapsed_seconds now last_update)"
  using assms by (simp add: get_time_ago_def get_time_ago_try_def)

lemma div_bounds:
  fixes a b :: int
  assumes "0 < b"
  shows "b * (a div b) \<le> a \<and> a < b * (a div b + 1)"
proof -
  have split: "b * (a div b) + a mod b = a" by simp
  have low: "0 \<le> a mod b" and high: "a mod b < b"
    using assms by simp_all
  have "b * (a div b + 1) = b * (a div b) + b"
    by (simp add: distrib_left)
  with split low high show ?thesis by linarith
qed

lemma example_parse:
  "''2025-01-01T00:00:00'' \<noteq> ''none''" "''2025-01-01T00:00:00'' \<noteq> []"
  "fromisoformat example_lib (replace_Z ''2025-01-01T00:00:00'')
     = Some \<lparr>wall = 1735689600000000, tzinfo = None\<rparr>"
  by (simp_all add: example_lib_def replace_Z_def)

text \<open>
  C2. The sentinel \<^verbatim>\<open>"none"\<close> gives "Never". For a timestamp that parses and an
  elapsed count \<open>s \<ge> 0\<close> of whole seconds: 0 gives "0 seconds ago", 59 gives "59 seconds
  ago", 60 and 119 give "1 minute ago", 120 gives "2 minutes ago", 3600 gives "1 hour
  ago", 86400 gives "1 day ago". Under a minute the label shows \<open>s\<close> itself; from a minute
  on it shows the number of whole minutes, hours or days that fit into \<open>s\<close> (the unit
  count rounded down), with an "s" unless that number is 1. The count \<open>s\<close> itself is the
  number of whole seconds that fit into the time passed since the timestamp, as long as
  that time is below \<open>2 ^ 53\<close> microseconds (some 285 years), where the float of
  \<^verbatim>\<open>total_seconds()\<close> cannot reach the next whole second.
\<close>

theorem get_time_ago_boundaries:
  assumes "ts \<noteq> ''none''" "ts \<noteq> []"
    and "fromisoformat L (replace_Z ts) = Some last_update"
    and "elapsed_seconds now last_update = s" "0 \<le> s"
  shows "get_time_ago L now (JStr ''none'') = ''Never''
       \<and> (s = 0 \<longrightarrow> get_time_ago L now (JStr ts) = ''0 seconds ago'')
       \<and> (s = 59 \<longrightarrow> get_time_ago L now (JStr ts) = ''59 seconds ago'')
       \<and> (s = 60 \<longrightarrow> get_time_ago L now (JStr ts) = ''1 minute ago'')
       \<and> (s = 119 \<longrightarrow> get_time_ago L now (JStr ts) = ''1 minute ago'')
       \<and> (s = 120 \<longrightarrow> get_time_ago L now (JStr ts) = ''2 minutes ago'')
       \<and> (s = 3600 \<longrightarrow> get_time_ago L now (JStr ts) = ''1 hour ago'')
       \<and> (s = 86400 \<longrightarrow> get_time_ago L now (JStr ts) = ''1 day ago'')
       \<and> (s < 60 \<longrightarrow> get_time_ago L now (JStr ts) = str_int s @ '' seconds ago'')
       \<and> (60 \<le> s \<and> s < 3600 \<longrightarrow>
            (\<exists>m. get_time_ago L now (JStr ts)
                    = str_int m @ '' minute'' @ (if m = 1 then [] else ''s'') @ '' ago''
                 \<and> 60 * m \<le> s \<and> s < 60 * (m + 1)))
       \<and> (3600 \<le> s \<and> s < 86400 \<longrightarrow>
            (\<exists>h. get_time_ago L now (JStr ts)
                    = str_int h @ '' hour'' @ (if h = 1 then [] else ''s'') @ '' ago''
                 \<and> 3600 * h \<le> s \<and> s < 3600 * (h + 1)))
       \<and> (86400 \<le> s \<longrightarrow>
            (\<exists>d. get_time_ago L now (JStr ts)
                    = str_int d @ '' day'' @ (if d = 1 then [] else ''s'') @ '' ago''
                 \<and> 86400 * d \<le> s \<and> s < 86400 * (d + 1)))
       \<and> (utc_micros last_update \<le> now \<and> now - utc_micros last_update < 2 ^ 53 \<longrightarrow>
            1000000 * s \<le> now - utc_micros last_update
            \<and> now - utc_micros last_update < 1000000 * (s + 1))"
proof -
  have label: "get_time_ago L now (JStr ts) = time_ago_label s"
    using get_time_ago_parsed [OF assms(1-3), of now] assms(4) by simp
  have never: "get_time_ago L now (JStr ''none'') = ''Never''"
    by (simp add: get_time_ago_def)
  have minutes: "\<exists>m. time_ago_label s
        = str_int m @ '' minute'' @ (if m = 1 then [] else ''s'') @ '' ago''
      \<and> 60 * m \<le> s \<and> s < 60 * (m + 1)" if "60 \<le> s" "s < 3600"
  proof (intro exI conjI)
    show "time_ago_label s = str_int (s div 60) @ '' minute''
        @ (if s div 60 = 1 then [] else ''s'') @ '' ago''"
      using that by (simp add: time_ago_label_def Let_def)
    show "60 * (s div 60) \<le> s" "s < 60 * (s div 60 + 1)"
      using div_bounds [of 60 s] by simp_all
  qed
  have hours: "\<exists>h. time_ago_label s
        = str_int h @ '' hour'' @ (if h = 1 then [] else ''s'') @ '' ago''
      \<and> 3600 * h \<le> s \<and> s < 3600 * (h + 1)" if "3600 \<le> s" "s < 86400"
  proof (intro exI conjI)
    show "time_ago_label s = str_int (s div 3600) @ '' hour''
        @ (if s div 3600 = 1 then [] else ''s'') @ '' ago''"
      using that by (simp add: time_ago_label_def Let_def)
    show "3600 * (s div 3600) \<le> s" "s < 3600 * (s div 3600 + 1)"
      using div_bounds [of 3600 s] by simp_all
  qed
  have days: "\<exists>d. time_ago_label s
        = str_int d @ '' day'' @ (if d = 1 then [] else ''s'') @ '' ago''
      \<and> 86400 * d \<le> s \<and> s < 86400 * (d + 1)" if "86400 \<le> s"
  proof (intro exI conjI)
    show "time_ago_label s = str_int (s div 86400) @ '' day''
        @ (if s div 86400 = 1 then [] else ''s'') @ '' ago''"
      using that by (simp add: time_ago_label_def Let_def)
    show "86400 * (s div 86400) \<le> s" "s < 86400 * (s div 86400 + 1)"
      using div_bounds [of 86400 s] by simp_all
  qed
  have micros: "1000000 * s \<le> now - utc_micros last_update
      \<and> now - utc_micros last_update < 1000000 * (s + 1)"
    if "utc_micros last_update \<le> now" "now - utc_micros last_update < 2 ^ 53"
  proof -
    have "\<bar>now - utc_micros last_update\<bar> < 2 ^ 53"
      using that by simp
    from elapsed_seconds_eq [OF this]
    have "s = (now - utc_micros last_update) div 1000000"
      using that(1) assms(4) by simp
    then show ?thesis
      using div_bounds [of 1000000 "now - utc_micros last_update"] by simp
  qed
  have seconds: "time_ago_label s = str_int s @ '' seconds ago''" if "s < 60"
    using that by (simp add: time_ago_label_def)
  show ?thesis
    unfolding label
    using never minutes hours days micros seconds time_ago_label_samples
    by (simp add: label)
qed

theorem get_time_ago_boundaries_witness:
  "get_time_ago example_lib 1735689600000000 (JStr ''none'') = ''Never''
   \<and> get_time_ago example_lib 1735689600000000 (JStr ''2025-01-01T00:00:00'') = ''0 seconds ago''
   \<and> get_time_ago example_lib 1735689659999999 (JStr ''2025-01-01T00:00:00'') = ''59 seconds ago''
   \<and> get_time_ago example_lib 1735689660000000 (JStr ''2025-01-01T00:00:00'') = ''1 minute ago''
   \<and> get_time_ago example_lib 1735689719999999 (JStr ''2025-01-01T00:00:00'') = ''1 minute ago''
   \<and> get_time_ago example_lib 1735689720000000 (JStr ''2025-01-01T00:00:00'') = ''2 minutes ago''
   \<and> get_time_ago example_lib 1735693200000000 (JStr ''2025-01-01T00:00:00'') = ''1 hour ago''
   \<and> get_time_ago example_lib 1735776000000000 (JStr ''2025-01-01T00:00:00'') = ''1 day ago''"
proof -
  let ?d = "\<lparr>wall = 1735689600000000, tzinfo = None\<rparr>"
  note at = get_time_ago_boundaries [OF example_parse]
  have "elapsed_seconds 1735689600000000 ?d = 0" "elapsed_seconds 1735689659999999 ?d = 59"
    "elapsed_seconds 1735689660000000 ?d = 60" "elapsed_seconds 1735689719999999 ?d = 119"
    "elapsed_seconds 1735689720000000 ?d = 120" "elapsed_seconds 1735693200000000 ?d = 3600"
    "elapsed_seconds 1735776000000000 ?d = 86400"
    by (simp_all add: elapsed_seconds_eq utc_micros_def)
  then show ?thesis
    using at [of 1735689600000000 0] at [of 1735689659999999 59] at [of 1735689660000000 60]
      at [of 1735689719999999 119] at [of 1735689720000000 120]
      at [of 1735693200000000 3600] at [of 1735776000000000 86400]
    by simp
qed

text \<open>
  C6. A string that is neither the sentinel \<^verbatim>\<open>"none"\<close> nor empty and that
  \<^verbatim>\<open>fromisoformat\<close> rejects makes the body of the \<^verbatim>\<open>try\<close> raise; the function
  catches it and returns "Error parsing: " followed by the string as it was given.
\<close>

theorem get_time_ago_malformed:
  assumes "ts \<noteq> ''none''" "ts \<noteq> []" "fromisoformat L (replace_Z ts) = None"
  shows "get_time_ago_try L now (JStr ts) = Inl ValueError
       \<and> get_time_ago L now (JStr ts) = ''Error parsing: '' @ ts"
  using assms by (simp add: get_time_ago_def get_time_ago_try_def fmt_def)

theorem get_time_ago_malformed_witness:
  "''yesterday'' \<noteq> ''none'' \<and> ''yesterday'' \<noteq> []
   \<and> fromisoformat example_lib (replace_Z ''yesterday'') = None
   \<and> get_time_ago example_lib 1735689600000000 (JStr ''yesterday'') = ''Error parsing: yesterday''"
  using get_time_ago_malformed [of "''yesterday''" example_lib 1735689600000000]
  by (simp add: example_lib_def replace_Z_def)




section \<open>Properties of the sensor report\<close>

subsection \<open>Grouping by declared type\<close>

lemma classify_buckets:
  "motion_sensors (classify b d) =
     motion_sensors b @ filter (\<lambda>d. sd_type d = JStr ''ZLLPresence'') [d]"
  "temperature_sensors (classify b d) =
     temperature_sensors b
     @ filter (\<lambda>d. sd_type d = JStr ''ZLLTemperature'' \<or> sd_type d = JStr ''ZLLLightLevel'') [d]"
  "dimmer_switches (classify b d) =
     dimmer_switches b @ filter (\<lambda>d. sd_type d = JStr ''ZLLSwitch'') [d]"
  "other_sensors (classify b d) =
     other_sensors b
     @ filter (\<lambda>d. sd_type d \<notin> {JStr ''ZLLPresence'', JStr ''ZLLTemperature'',
          JStr ''ZLLLightLevel'', JStr ''ZLLSwitch'', JStr ''Daylight'',
          JStr ''CLIPGenericStatus''}) [d]"
  by (simp_all add: classify_def)

lemma group_sensors_filter:
  assumes "group_sensors b items = Inr b'"
  shows "\<exists>ds. map (\<lambda>(sensor_id, sensor_info). sensor_data_of sensor_id sensor_info) items
               = map Inr ds
     \<and> motion_sensors b' = motion_sensors b @ filter (\<lambda>d. sd_type d = JStr ''ZLLPresence'') ds
     \<and> temperature_sensors b' = temperature_sensors b
         @ filter (\<lambda>d. sd_type d = JStr ''ZLLTemperature'' \<or> sd_type d = JStr ''ZLLLightLevel'') ds
     \<and> dimmer_switches b' = dimmer_switches b @ filter (\<lambda>d. sd_type d = JStr ''ZLLSwitch'') ds
     \<and> other_sensors b' = other_sensors b
         @ filter (\<lambda>d. sd_type d \<notin> {JStr ''ZLLPresence'', JStr ''ZLLTemperature'',
              JStr ''ZLLLightLevel'', JStr ''ZLLSwitch'', JStr ''Daylight'',
              JStr ''CLIPGenericStatus''}) ds"
  using assms
proof (induction items arbitrary: b)
  case Nil
  then show ?case by simp
next
  case (Cons item items)
  obtain sensor_id sensor_info where item: "item = (sensor_id, sensor_info)"
    by (cases item)
  from Cons.prems item obtain d where d: "sensor_data_of sensor_id sensor_info = Inr d"
    and rest: "group_sensors (classify b d) items = Inr b'"
    by (auto split: sum.splits)
  from Cons.IH [OF rest] obtain ds where ds:
    "map (\<lambda>(sensor_id, sensor_info). sensor_data_of sensor_id sensor_info) items = map Inr ds"
    "motion_sensors b' = motion_sensors (classify b d)
       @ filter (\<lambda>d. sd_type d = JStr ''ZLLPresence'') ds"
    "temperature_sensors b' = temperature_sensors (classify b d)
       @ filter (\<lambda>d. sd_type d = JStr ''ZLLTemperature'' \<or> sd_type d = JStr ''ZLLLightLevel'') ds"
    "dimmer_switches b' = dimmer_switches (classify b d)
       @ filter (\<lambda>d. sd_type d = JStr ''ZLLSwitch'') ds"
    "other_sensors b' = other_sensors (classify b d)
       @ filter (\<lambda>d. sd_type d \<notin> {JStr ''ZLLPresence'', JStr ''ZLLTemperature'',
            JStr ''ZLLLightLevel'', JStr ''ZLLSwitch'', JStr ''Daylight'',
            JStr ''CLIPGenericStatus''}) ds"
    by blast
  show ?case
  proof (intro exI [of _ "d # ds"] conjI)
    show "map (\<lambda>(sensor_id, sensor_info). sensor_data_of sensor_id sensor_info) (item # items)
        = map Inr (d # ds)"
      using item d ds(1) by simp
  qed (simp_all only: ds classify_buckets append_assoc filter_append [symmetric] append_Cons append_Nil)
qed

lemma filtered_buckets_holding:
  assumes "motion_sensors b = filter (\<lambda>d. sd_type d = JStr ''ZLLPresence'') ds"
    and "temperature_sensors b
       = filter (\<lambda>d. sd_type d = JStr ''ZLLTemperature'' \<or> sd_type d = JStr ''ZLLLightLevel'') ds"
    and "dimmer_switches b = filter (\<lambda>d. sd_type d = JStr ''ZLLSwitch'') ds"
    and "other_sensors b
       = filter (\<lambda>d. sd_type d \<notin> {JStr ''ZLLPresence'', JStr ''ZLLTemperature'',
            JStr ''ZLLLightLevel'', JStr ''ZLLSwitch'', JStr ''Daylight'',
            JStr ''CLIPGenericStatus''}) ds"
    and "d \<in> set ds"
  shows "buckets_holding b d =
      (if sd_type d = JStr ''Daylight'' \<or> sd_type d = JStr ''CLIPGenericStatus'' then 0 else 1)"
  using assms(5) by (simp add: buckets_holding_def assms(1-4))

lemma sensor_data_of_reads:
  assumes "sensor_data_of sensor_id sensor_info = Inr d"
  shows "sd_id d = sensor_id"
    and "py_get sensor_info ''type'' (JStr ''Unknown'') = Inr (sd_type d)"
  using assms by (auto simp add: sensor_data_of_def split: sum.splits)

lemma sensor_data_nth:
  assumes "map (\<lambda>(sensor_id, sensor_info). sensor_data_of sensor_id sensor_info) items
      = map Inr ds"
    and "i < length items" "items ! i = (sensor_id, sensor_info)"
  shows "sensor_data_of sensor_id sensor_info = Inr (ds ! i)"
proof -
  have len: "length items = length ds"
    using assms(1) by (rule map_eq_imp_length_eq)
  have "map (\<lambda>(sensor_id, sensor_info). sensor_data_of sensor_id sensor_info) items ! i
      = map Inr ds ! i"
    by (simp only: assms(1))
  then show ?thesis using assms(2,3) len by simp
qed

text \<open>
  C3. When the grouping loop completes, every record has given one entry \<open>d\<close>, in the
  order of the records, and the type of the entry is the record's declared type, read
  from its "type" field ("Unknown" when the field is missing). The entry is in the
  motion list exactly when that type is "ZLLPresence", in the temperature/light list
  exactly when it is "ZLLTemperature" or "ZLLLightLevel", in the switch list exactly
  when it is "ZLLSwitch", and in the list of others exactly when it is none of these
  four nor "Daylight" nor "CLIPGenericStatus". The four lists are the entries filtered
  by these conditions, so an entry is in no list when its type is "Daylight" or
  "CLIPGenericStatus" and in exactly one list otherwise.
\<close>

theorem sensor_classification:
  assumes "group_sensors no_sensors items = Inr b"
  shows "\<exists>ds. map (\<lambda>(sensor_id, sensor_info). sensor_data_of sensor_id sensor_info) items
               = map Inr ds
     \<and> list_all2
          (\<lambda>(sensor_id, sensor_info) d.
              sd_id d = sensor_id
            \<and> py_get sensor_info ''type'' (JStr ''Unknown'') = Inr (sd_type d)
            \<and> (d \<in> set (motion_sensors b)) = (sd_type d = JStr ''ZLLPresence'')
            \<and> (d \<in> set (temperature_sensors b))
                = (sd_type d = JStr ''ZLLTemperature'' \<or> sd_type d = JStr ''ZLLLightLevel'')
            \<and> (d \<in> set (dimmer_switches b)) = (sd_type d = JStr ''ZLLSwitch'')
            \<and> (d \<in> set (other_sensors b))
                = (sd_type d \<notin> {JStr ''ZLLPresence'', JStr ''ZLLTemperature'',
                     JStr ''ZLLLightLevel'', JStr ''ZLLSwitch'', JStr ''Daylight'',
                     JStr ''CLIPGenericStatus''}))
          items ds
     \<and> motion_sensors b = filter (\<lambda>d. sd_type d = JStr ''ZLLPresence'') ds
     \<and> temperature_sensors b
         = filter (\<lambda>d. sd_type d = JStr ''ZLLTemperature'' \<or> sd_type d = JStr ''ZLLLightLevel'') ds
     \<and> dimmer_switches b = filter (\<lambda>d. sd_type d = JStr ''ZLLSwitch'') ds
     \<and> other_sensors b
         = filter (\<lambda>d. sd_type d \<notin> {JStr ''ZLLPresence'', JStr ''ZLLTemperature'',
              JStr ''ZLLLightLevel'', JStr ''ZLLSwitch'', JStr ''Daylight'',
              JStr ''CLIPGenericStatus''}) ds
     \<and> (\<forall>d \<in> set ds. buckets_holding b d =
           (if sd_type d = JStr ''Daylight'' \<or> sd_type d = JStr ''CLIPGenericStatus''
            then 0 else 1))"
proof -
  from group_sensors_filter [OF assms] obtain ds where ds:
    "map (\<lambda>(sensor_id, sensor_info). sensor_data_of sensor_id sensor_info) items = map Inr ds"
    and m: "motion_sensors b = filter (\<lambda>d. sd_type d = JStr ''ZLLPresence'') ds"
    and t: "temperature_sensors b
       = filter (\<lambda>d. sd_type d = JStr ''ZLLTemperature'' \<or> sd_type d = JStr ''ZLLLightLevel'') ds"
    and s: "dimmer_switches b = filter (\<lambda>d. sd_type d = JStr ''ZLLSwitch'') ds"
    and o: "other_sensors b
       = filter (\<lambda>d. sd_type d \<notin> {JStr ''ZLLPresence'', JStr ''ZLLTemperature'',
            JStr ''ZLLLightLevel'', JStr ''ZLLSwitch'', JStr ''Daylight'',
            JStr ''CLIPGenericStatus''}) ds"
    by (auto simp add: no_sensors_def)
  have holding: "buckets_holding b d =
      (if sd_type d = JStr ''Daylight'' \<or> sd_type d = JStr ''CLIPGenericStatus'' then 0 else 1)"
    if "d \<in> set ds" for d
    using filtered_buckets_holding [OF m t s o that] .
  have len: "length items = length ds"
    using ds by (rule map_eq_imp_length_eq)
  have each: "(case items ! i of (sensor_id, sensor_info) \<Rightarrow> \<lambda>d.
              sd_id d = sensor_id
            \<and> py_get sensor_info ''type'' (JStr ''Unknown'') = Inr (sd_type d)
            \<and> (d \<in> set (motion_sensors b)) = (sd_type d = JStr ''ZLLPresence'')
            \<and> (d \<in> set (temperature_sensors b))
                = (sd_type d = JStr ''ZLLTemperature'' \<or> sd_type d = JStr ''ZLLLightLevel'')
            \<and> (d \<in> set (dimmer_switches b)) = (sd_type d = JStr ''ZLLSwitch'')
            \<and> (d \<in> set (other_sensors b))
                = (sd_type d \<notin> {JStr ''ZLLPresence'', JStr ''ZLLTemperature'',
                     JStr ''ZLLLightLevel'', JStr ''ZLLSwitch'', JStr ''Daylight'',
                     JStr ''CLIPGenericStatus''})) (ds ! i)"
    if i: "i < length items" for i
  proof -
    obtain sensor_id sensor_info where item: "items ! i = (sensor_id, sensor_info)"
      by (cases "items ! i")
    have "sensor_data_of sensor_id sensor_info = Inr (ds ! i)"
      using sensor_data_nth [OF ds i item] .
    note reads = sensor_data_of_reads [OF this]
    have "ds ! i \<in> set ds" using i len by simp
    then show ?thesis
      using reads by (simp add: item m t s o)
  qed
  have linked: "list_all2
          (\<lambda>(sensor_id, sensor_info) d.
              sd_id d = sensor_id
            \<and> py_get sensor_info ''type'' (JStr ''Unknown'') = Inr (sd_type d)
            \<and> (d \<in> set (motion_sensors b)) = (sd_type d = JStr ''ZLLPresence'')
            \<and> (d \<in> set (temperature_sensors b))
                = (sd_type d = JStr ''ZLLTemperature'' \<or> sd_type d = JStr ''ZLLLightLevel'')
            \<and> (d \<in> set (dimmer_switches b)) = (sd_type d = JStr ''ZLLSwitch'')
            \<and> (d \<in> set (other_sensors b))
                = (sd_type d \<notin> {JStr ''ZLLPresence'', JStr ''ZLLTemperature'',
                     JStr ''ZLLLightLevel'', JStr ''ZLLSwitch'', JStr ''Daylight'',
                     JStr ''CLIPGenericStatus''}))
          items ds"
    unfolding list_all2_conv_all_nth using len each by blast
  from ds linked m t s o holding show ?thesis by blast
qed

theorem sensor_classification_witness:
  "\<exists>b. group_sensors no_sensors example_sensors = Inr b
     \<and> map (\<lambda>d. (sd_id d, sd_type d)) (motion_sensors b) = [(''1'', JStr ''ZLLPresence'')]
     \<and> map (\<lambda>d. (sd_id d, sd_type d)) (temperature_sensors b)
         = [(''2'', JStr ''ZLLTemperature''), (''3'', JStr ''ZLLLightLevel'')]
     \<and> map (\<lambda>d. (sd_id d, sd_type d)) (dimmer_switches b) = [(''4'', JStr ''ZLLSwitch'')]
     \<and> map (\<lambda>d. (sd_id d, sd_type d)) (other_sensors b)
         = [(''7'', JStr ''Geofence''), (''8'', JStr ''Unknown'')]
     \<and> (\<exists>ds. length ds = length example_sensors
            \<and> motion_sensors b = filter (\<lambda>d. sd_type d = JStr ''ZLLPresence'') ds
            \<and> dimmer_switches b = filter (\<lambda>d. sd_type d = JStr ''ZLLSwitch'') ds)"
proof -
  obtain b where b: "group_sensors no_sensors example_sensors = Inr b"
    and ids: "map (\<lambda>d. (sd_id d, sd_type d)) (motion_sensors b) = [(''1'', JStr ''ZLLPresence'')]"
      "map (\<lambda>d. (sd_id d, sd_type d)) (temperature_sensors b)
         = [(''2'', JStr ''ZLLTemperature''), (''3'', JStr ''ZLLLightLevel'')]"
      "map (\<lambda>d. (sd_id d, sd_type d)) (dimmer_switches b) = [(''4'', JStr ''ZLLSwitch'')]"
      "map (\<lambda>d. (sd_id d, sd_type d)) (other_sensors b)
         = [(''7'', JStr ''Geofence''), (''8'', JStr ''Unknown'')]"
    by (simp add: example_sensors_def sensor_data_of_def classify_def no_sensors_def)
  from sensor_classification [OF b] obtain ds
    where ds: "map (\<lambda>(sensor_id, sensor_info). sensor_data_of sensor_id sensor_info)
        example_sensors = map Inr ds"
      "motion_sensors b = filter (\<lambda>d. sd_type d = JStr ''ZLLPresence'') ds"
      "dimmer_switches b = filter (\<lambda>d. sd_type d = JStr ''ZLLSwitch'') ds"
    by (elim exE conjE)
  have len: "length ds = length example_sensors"
    using map_eq_imp_length_eq [OF ds(1)] by simp
  show ?thesis
    using b ids len ds(2,3) by (intro exI [of _ b] exI [of _ ds] conjI) assumption+
qed

subsection \<open>Records with missing fields\<close>

lemma sensor_data_of_fields:
  assumes "present_fields_well_typed (JObj entries)"
  shows "\<exists>d. sensor_data_of sensor_id (JObj entries) = Inr d \<and> sound_data d
     \<and> sd_id d = sensor_id
     \<and> sd_type d = (case map_of entries ''type'' of None \<Rightarrow> JStr ''Unknown'' | Some v \<Rightarrow> v)
     \<and> sd_name d = (case map_of entries ''name'' of None \<Rightarrow> JStr ''Unknown'' | Some v \<Rightarrow> v)
     \<and> sd_state d = (case map_of entries ''state'' of None \<Rightarrow> JObj [] | Some v \<Rightarrow> v)
     \<and> sd_config d = (case map_of entries ''config'' of None \<Rightarrow> JObj [] | Some v \<Rightarrow> v)
     \<and> py_get (sd_state d) ''lastupdated'' (JStr ''none'') = Inr (sd_lastupdated d)"
proof -
  obtain kvs where state:
    "(case map_of entries ''state'' of None \<Rightarrow> JObj [] | Some v \<Rightarrow> v) = JObj kvs"
    "state_well_typed (JObj kvs)"
    using assms
    by (auto simp add: present_fields_well_typed_def state_well_typed_def
        split: option.splits json.splits)
  obtain cs where config:
    "(case map_of entries ''config'' of None \<Rightarrow> JObj [] | Some v \<Rightarrow> v) = JObj cs"
    using assms
    by (cases "map_of entries ''config''")
       (auto simp add: present_fields_well_typed_def elim: is_dict.elims)
  show ?thesis
    using state config by (simp add: sensor_data_of_def sound_data_def)
qed

lemma classify_sound: "all_sound b \<Longrightarrow> sound_data d \<Longrightarrow> all_sound (classify b d)"
  by (simp add: all_sound_def classify_def)

lemma group_sensors_sound:
  assumes "all_sound b"
    and "\<forall>(sensor_id, sensor_info) \<in> set items. present_fields_well_typed sensor_info"
  shows "\<exists>b'. group_sensors b items = Inr b' \<and> all_sound b'"
  using assms
proof (induction items arbitrary: b)
  case Nil
  then show ?case by simp
next
  case (Cons item items)
  obtain sensor_id sensor_info where item: "item = (sensor_id, sensor_info)"
    by (cases item)
  with Cons.prems(2) have wt: "present_fields_well_typed sensor_info" by simp
  then obtain entries where "sensor_info = JObj entries"
    by (cases sensor_info) (simp_all add: present_fields_well_typed_def)
  with wt sensor_data_of_fields [of entries sensor_id]
  obtain d where d: "sensor_data_of sensor_id sensor_info = Inr d" "sound_data d"
    by blast
  have "\<exists>b'. group_sensors (classify b d) items = Inr b' \<and> all_sound b'"
    using Cons.prems d(2) by (intro Cons.IH classify_sound) simp_all
  then show ?case using item d(1) by simp
qed

lemma motion_entry_total:
  "sound_data d \<Longrightarrow> \<exists>ls. motion_entry L now_at d = Inr ls"
  by (auto simp add: sound_data_def state_well_typed_def motion_entry_def Let_def
      elim!: is_dict.elims split: json.splits)

lemma temperature_reading_total:
  "sound_data d \<Longrightarrow> \<exists>ls. temperature_reading L d = Inr ls"
  by (auto simp add: sound_data_def state_well_typed_def temperature_reading_def
      elim!: number_or_none.elims split: json.splits option.splits)

lemma temperature_entry_total:
  assumes "sound_data d"
  shows "\<exists>ls. temperature_entry L now_at d = Inr ls"
proof -
  obtain r where "temperature_reading L d = Inr r"
    using temperature_reading_total [OF assms] by blast
  moreover obtain cs where "sd_config d = JObj cs"
    using assms by (auto simp add: sound_data_def elim: is_dict.elims)
  ultimately show ?thesis
    by (simp add: temperature_entry_def Let_def)
qed

lemma dimmer_entry_total:
  "sound_data d \<Longrightarrow> \<exists>ls. dimmer_entry L now_at d = Inr ls"
  by (auto simp add: sound_data_def state_well_typed_def dimmer_entry_def Let_def
      elim!: is_dict.elims split: json.splits)

lemma other_entry_lines:
  "other_entry L now_at d =
     Inr [fmt L (sd_name d) @ '' (ID '' @ sd_id d @ '') - '' @ fmt L (sd_type d),
          ''  Last updated: '' @ get_time_ago L (now_at (sd_id d)) (sd_lastupdated d),
          ''  State: '' @ fmt L (sd_state d),
          []]"
  by (simp add: other_entry_def Let_def)

lemma each_sensor_total:
  "list_all (\<lambda>d. \<exists>ls. f d = Inr ls) ds \<Longrightarrow> \<exists>ls. each_sensor f ds = Inr ls"
  by (induction ds) auto

lemma each_sensor_holds:
  assumes "each_sensor f ds = Inr ls" "d \<in> set ds"
  shows "\<exists>e pre post. f d = Inr e \<and> ls = pre @ e @ post"
  using assms
proof (induction ds arbitrary: ls)
  case Nil
  then show ?case by simp
next
  case (Cons x xs)
  from Cons.prems(1) obtain e0 later where parts:
    "f x = Inr e0" "each_sensor f xs = Inr later" "ls = e0 @ later"
    by (auto split: sum.splits)
  show ?case
  proof (cases "d = x")
    case True
    have "ls = [] @ e0 @ later" using parts(3) by simp
    with True parts(1) show ?thesis by blast
  next
    case False
    with Cons.prems(2) have "d \<in> set xs" by simp
    from Cons.IH [OF parts(2) this] obtain e pre post
      where e: "f d = Inr e" "later = pre @ e @ post"
      by blast
    have "ls = (e0 @ pre) @ e @ post" using parts(3) e(2) by simp
    with e(1) show ?thesis by blast
  qed
qed

lemma section_lines_total:
  "list_all (\<lambda>d. \<exists>ls. entry d = Inr ls) ds \<Longrightarrow> \<exists>ls. section_lines title entry ds = Inr ls"
  using each_sensor_total [of entry ds] by (auto simp add: section_lines_def)

lemma section_lines_holds:
  assumes "section_lines title entry ds = Inr ls" "d \<in> set ds"
  shows "\<exists>e pre post. entry d = Inr e \<and> ls = pre @ e @ post"
proof -
  from assms obtain body where body: "each_sensor entry ds = Inr body"
    and ls: "ls = [title, replicate 80 CHR ''-''] @ body"
    by (auto simp add: section_lines_def split: if_splits sum.splits)
  from each_sensor_holds [OF body assms(2)] obtain e pre post
    where e: "entry d = Inr e" "body = pre @ e @ post"
    by blast
  have "ls = ([title, replicate 80 CHR ''-''] @ pre) @ e @ post"
    using ls e(2) by simp
  with e(1) show ?thesis by blast
qed

lemma motion_entry_shows:
  "motion_entry L now_at d = Inr e \<Longrightarrow>
   ''  Last updated: '' @ get_time_ago L (now_at (sd_id d)) (sd_lastupdated d) \<in> set e"
  by (auto simp add: motion_entry_def Let_def split: sum.splits)

lemma temperature_entry_shows:
  "temperature_entry L now_at d = Inr e \<Longrightarrow>
   ''  Last updated: '' @ get_time_ago L (now_at (sd_id d)) (sd_lastupdated d) \<in> set e"
  by (auto simp add: temperature_entry_def Let_def split: sum.splits)

lemma dimmer_entry_shows:
  "dimmer_entry L now_at d = Inr e \<Longrightarrow>
   ''  Last pressed: '' @ get_time_ago L (now_at (sd_id d)) (sd_lastupdated d) \<in> set e"
  by (auto simp add: dimmer_entry_def Let_def split: sum.splits)

lemma other_entry_shows:
  "other_entry L now_at d = Inr e \<Longrightarrow>
   ''  Last updated: '' @ get_time_ago L (now_at (sd_id d)) (sd_lastupdated d) \<in> set e"
  by (auto simp add: other_entry_def Let_def)

lemma all_sound_lists:
  assumes "all_sound b"
  shows "list_all (\<lambda>d. \<exists>ls. motion_entry L now_at d = Inr ls) (motion_sensors b)"
    and "list_all (\<lambda>d. \<exists>ls. temperature_entry L now_at d = Inr ls) (temperature_sensors b)"
    and "list_all (\<lambda>d. \<exists>ls. dimmer_entry L now_at d = Inr ls) (dimmer_switches b)"
    and "list_all (\<lambda>d. \<exists>ls. other_entry L now_at d = Inr ls) (other_sensors b)"
  using assms
  by (simp_all add: all_sound_def list_all_iff motion_entry_total temperature_entry_total
      dimmer_entry_total other_entry_lines)

lemma report_lines_total:
  assumes "all_sound b"
  shows "\<exists>l1 l2 l3 l4.
       section_lines ''MOTION SENSORS'' (motion_entry L now_at) (motion_sensors b) = Inr l1
     \<and> section_lines ''TEMPERATURE/LIGHT SENSORS'' (temperature_entry L now_at)
         (temperature_sensors b) = Inr l2
     \<and> section_lines ''DIMMER SWITCHES'' (dimmer_entry L now_at) (dimmer_switches b) = Inr l3
     \<and> section_lines ''OTHER SENSORS'' (other_entry L now_at) (other_sensors b) = Inr l4
     \<and> report_lines L now_at b = Inr (l1 @ l2 @ l3 @ l4)"
proof -
  note lists = all_sound_lists [OF assms, of L now_at]
  obtain l1 where l1:
    "section_lines ''MOTION SENSORS'' (motion_entry L now_at) (motion_sensors b) = Inr l1"
    using section_lines_total [OF lists(1)] by blast
  obtain l2 where l2:
    "section_lines ''TEMPERATURE/LIGHT SENSORS'' (temperature_entry L now_at)
       (temperature_sensors b) = Inr l2"
    using section_lines_total [OF lists(2)] by blast
  obtain l3 where l3:
    "section_lines ''DIMMER SWITCHES'' (dimmer_entry L now_at) (dimmer_switches b) = Inr l3"
    using section_lines_total [OF lists(3)] by blast
  obtain l4 where l4:
    "section_lines ''OTHER SENSORS'' (other_entry L now_at) (other_sensors b) = Inr l4"
    using section_lines_total [OF lists(4)] by blast
  have "report_lines L now_at b = Inr (l1 @ l2 @ l3 @ l4)"
    by (simp add: report_lines_def l1 l2 l3 l4)
  with l1 l2 l3 l4 show ?thesis
    by (intro exI [of _ l1] exI [of _ l2] exI [of _ l3] exI [of _ l4] conjI)
qed

lemma sensor_data_in_list:
  assumes "map (\<lambda>(sensor_id, sensor_info). sensor_data_of sensor_id sensor_info) items
      = map Inr ds"
    and "(sensor_id, sensor_info) \<in> set items"
    and "sensor_data_of sensor_id sensor_info = Inr d"
  shows "d \<in> set ds"
proof -
  have "Inr d \<in> set (map (\<lambda>(sensor_id, sensor_info). sensor_data_of sensor_id sensor_info) items)"
    using assms(2,3) by force
  then have "(Inr d :: py_error + sensor_data) \<in> set (map Inr ds)"
    by (simp only: assms(1))
  then show ?thesis by auto
qed

lemma get_time_ago_none: "get_time_ago L now (JStr ''none'') = ''Never''"
  by (simp add: get_time_ago_def)

text \<open>
  C10. The claim is that no record with missing fields makes the report fail. A record
  can lack fields and still make it fail through a field it has: a temperature sensor
  without name and configuration whose temperature is the integer \<open>10 ^ 400\<close> raises
  \<^verbatim>\<open>OverflowError\<close> at \<^verbatim>\<open>temp / 100.0\<close>, and a record whose only field is a state of
  \<^verbatim>\<open>null\<close> raises \<^verbatim>\<open>AttributeError\<close> in the grouping loop.
\<close>

theorem list_sensor_activity_missing_fields_counterexample:
  "list_sensor_activity example_lib example_clock (Inr (JObj hot_sensors)) = Inl OverflowError
   \<and> list_sensor_activity example_lib example_clock (Inr (JObj stateless_sensors))
       = Inl AttributeError"
  by (simp add: hot_sensors_def stateless_sensors_def list_sensor_activity_def
      sensor_data_of_def classify_def no_sensors_def report_lines_def section_lines_def
      temperature_entry_def temperature_reading_def fits_float_def Let_def)

text \<open>
  C10 as amended. Let every record of the sensor document be a dictionary whose state
  and configuration, where present, have the types the report relies on (a
  temperature, where present, is \<^verbatim>\<open>None\<close> or a number that fits a float); any of the
  name, type, state and configuration may be missing. Then the report does not fail:
  it returns its lines. For each record an entry is built; a missing type becomes
  "Unknown" and the entry lands in the list of others and in no other list; a missing
  name becomes "Unknown"; a missing state or configuration becomes the empty
  dictionary; a state without "lastupdated" gives the sentinel "none", which
  \<open>get_time_ago\<close> renders as "Never". Whichever of the four lists holds the entry, the
  lines of the entry are part of the lines printed, and among them is the line that
  shows what \<open>get_time_ago\<close> renders ("  Last pressed: " for a switch, "  Last updated: "
  for the others).
\<close>

theorem list_sensor_activity_missing_fields:
  assumes "\<forall>(sensor_id, sensor_info) \<in> set items. present_fields_well_typed sensor_info"
  shows "\<exists>lines b. list_sensor_activity L now_at (Inr (JObj items)) = Inr lines
     \<and> group_sensors no_sensors items = Inr b
     \<and> (\<forall>(sensor_id, sensor_info) \<in> set items. \<exists>d.
           sensor_data_of sensor_id sensor_info = Inr d
         \<and> (\<not> has_key sensor_info ''type'' \<longrightarrow>
               sd_type d = JStr ''Unknown''
               \<and> d \<in> set (other_sensors b) \<and> buckets_holding b d = 1)
         \<and> (\<not> has_key sensor_info ''name'' \<longrightarrow> sd_name d = JStr ''Unknown'')
         \<and> (\<not> has_key sensor_info ''state'' \<longrightarrow> sd_state d = JObj [])
         \<and> (\<not> has_key sensor_info ''config'' \<longrightarrow> sd_config d = JObj [])
         \<and> (\<not> has_key (sd_state d) ''lastupdated'' \<longrightarrow>
               sd_lastupdated d = JStr ''none''
               \<and> get_time_ago L (now_at sensor_id) (sd_lastupdated d) = ''Never'')
         \<and> (d \<in> set (motion_sensors b) \<longrightarrow>
               shown_in lines (motion_entry L now_at)
                 (''  Last updated: '' @ get_time_ago L (now_at sensor_id) (sd_lastupdated d)) d)
         \<and> (d \<in> set (temperature_sensors b) \<longrightarrow>
               shown_in lines (temperature_entry L now_at)
                 (''  Last updated: '' @ get_time_ago L (now_at sensor_id) (sd_lastupdated d)) d)
         \<and> (d \<in> set (dimmer_switches b) \<longrightarrow>
               shown_in lines (dimmer_entry L now_at)
                 (''  Last pressed: '' @ get_time_ago L (now_at sensor_id) (sd_lastupdated d)) d)
         \<and> (d \<in> set (other_sensors b) \<longrightarrow>
               shown_in lines (other_entry L now_at)
                 (''  Last updated: '' @ get_time_ago L (now_at sensor_id) (sd_lastupdated d)) d))"
proof -
  have "all_sound no_sensors"
    by (simp add: all_sound_def no_sensors_def)
  from group_sensors_sound [OF this assms]
  obtain b where b: "group_sensors no_sensors items = Inr b" and sound: "all_sound b"
    by blast
  from report_lines_total [OF sound, of L now_at]
  obtain l1 l2 l3 l4 where
    l1: "section_lines ''MOTION SENSORS'' (motion_entry L now_at) (motion_sensors b) = Inr l1"
    and l2: "section_lines ''TEMPERATURE/LIGHT SENSORS'' (temperature_entry L now_at)
         (temperature_sensors b) = Inr l2"
    and l3: "section_lines ''DIMMER SWITCHES'' (dimmer_entry L now_at) (dimmer_switches b)
         = Inr l3"
    and l4: "section_lines ''OTHER SENSORS'' (other_entry L now_at) (other_sensors b) = Inr l4"
    and report: "report_lines L now_at b = Inr (l1 @ l2 @ l3 @ l4)"
    by (elim exE conjE)
  define head_lines where "head_lines =
    [replicate 80 CHR ''='', ''HUE SENSOR ACTIVITY'', replicate 80 CHR ''='', []]"
  define lines where "lines = head_lines @ l1 @ l2 @ l3 @ l4"
  have run: "list_sensor_activity L now_at (Inr (JObj items)) = Inr lines"
    using b report by (simp add: list_sensor_activity_def lines_def head_lines_def)
  from group_sensors_filter [OF b] obtain ds where ds:
    "map (\<lambda>(sensor_id, sensor_info). sensor_data_of sensor_id sensor_info) items = map Inr ds"
    and m: "motion_sensors b = filter (\<lambda>d. sd_type d = JStr ''ZLLPresence'') ds"
    and t: "temperature_sensors b
       = filter (\<lambda>d. sd_type d = JStr ''ZLLTemperature'' \<or> sd_type d = JStr ''ZLLLightLevel'') ds"
    and s: "dimmer_switches b = filter (\<lambda>d. sd_type d = JStr ''ZLLSwitch'') ds"
    and o: "other_sensors b
       = filter (\<lambda>d. sd_type d \<notin> {JStr ''ZLLPresence'', JStr ''ZLLTemperature'',
            JStr ''ZLLLightLevel'', JStr ''ZLLSwitch'', JStr ''Daylight'',
            JStr ''CLIPGenericStatus''}) ds"
    by (auto simp add: no_sensors_def)
  note holding = filtered_buckets_holding [OF m t s o]
  have in_motion: "shown_in lines (motion_entry L now_at)
      (''  Last updated: '' @ get_time_ago L (now_at (sd_id d)) (sd_lastupdated d)) d"
    if "d \<in> set (motion_sensors b)" for d
  proof -
    from section_lines_holds [OF l1 that] obtain e pre post
      where e: "motion_entry L now_at d = Inr e" "l1 = pre @ e @ post"
      by blast
    have "lines = (head_lines @ pre) @ e @ (post @ l2 @ l3 @ l4)"
      by (simp add: lines_def e(2))
    with e(1) motion_entry_shows [OF e(1)] show ?thesis
      unfolding shown_in_def by blast
  qed
  have in_temperature: "shown_in lines (temperature_entry L now_at)
      (''  Last updated: '' @ get_time_ago L (now_at (sd_id d)) (sd_lastupdated d)) d"
    if "d \<in> set (temperature_sensors b)" for d
  proof -
    from section_lines_holds [OF l2 that] obtain e pre post
      where e: "temperature_entry L now_at d = Inr e" "l2 = pre @ e @ post"
      by blast
    have "lines = (head_lines @ l1 @ pre) @ e @ (post @ l3 @ l4)"
      by (simp add: lines_def e(2))
    with e(1) temperature_entry_shows [OF e(1)] show ?thesis
      unfolding shown_in_def by blast
  qed
  have in_dimmer: "shown_in lines (dimmer_entry L now_at)
      (''  Last pressed: '' @ get_time_ago L (now_at (sd_id d)) (sd_lastupdated d)) d"
    if "d \<in> set (dimmer_switches b)" for d
  proof -
    from section_lines_holds [OF l3 that] obtain e pre post
      where e: "dimmer_entry L now_at d = Inr e" "l3 = pre @ e @ post"
      by blast
    have "lines = (head_lines @ l1 @ l2 @ pre) @ e @ (post @ l4)"
      by (simp add: lines_def e(2))
    with e(1) dimmer_entry_shows [OF e(1)] show ?thesis
      unfolding shown_in_def by blast
  qed
  have in_other: "shown_in lines (other_entry L now_at)
      (''  Last updated: '' @ get_time_ago L (now_at (sd_id d)) (sd_lastupdated d)) d"
    if "d \<in> set (other_sensors b)" for d
  proof -
    from section_lines_holds [OF l4 that] obtain e pre post
      where e: "other_entry L now_at d = Inr e" "l4 = pre @ e @ post"
      by blast
    have "lines = (head_lines @ l1 @ l2 @ l3 @ pre) @ e @ post"
      by (simp add: lines_def e(2))
    with e(1) other_entry_shows [OF e(1)] show ?thesis
      unfolding shown_in_def by blast
  qed
  have each: "\<exists>d.
           sensor_data_of sensor_id sensor_info = Inr d
         \<and> (\<not> has_key sensor_info ''type'' \<longrightarrow>
               sd_type d = JStr ''Unknown''
               \<and> d \<in> set (other_sensors b) \<and> buckets_holding b d = 1)
         \<and> (\<not> has_key sensor_info ''name'' \<longrightarrow> sd_name d = JStr ''Unknown'')
         \<and> (\<not> has_key sensor_info ''state'' \<longrightarrow> sd_state d = JObj [])
         \<and> (\<not> has_key sensor_info ''config'' \<longrightarrow> sd_config d = JObj [])
         \<and> (\<not> has_key (sd_state d) ''lastupdated'' \<longrightarrow>
               sd_lastupdated d = JStr ''none''
               \<and> get_time_ago L (now_at sensor_id) (sd_lastupdated d) = ''Never'')
         \<and> (d \<in> set (motion_sensors b) \<longrightarrow>
               shown_in lines (motion_entry L now_at)
                 (''  Last updated: '' @ get_time_ago L (now_at sensor_id) (sd_lastupdated d)) d)
         \<and> (d \<in> set (temperature_sensors b) \<longrightarrow>
               shown_in lines (temperature_entry L now_at)
                 (''  Last updated: '' @ get_time_ago L (now_at sensor_id) (sd_lastupdated d)) d)
         \<and> (d \<in> set (dimmer_switches b) \<longrightarrow>
               shown_in lines (dimmer_entry L now_at)
                 (''  Last pressed: '' @ get_time_ago L (now_at sensor_id) (sd_lastupdated d)) d)
         \<and> (d \<in> set (other_sensors b) \<longrightarrow>
               shown_in lines (other_entry L now_at)
                 (''  Last updated: '' @ get_time_ago L (now_at sensor_id) (sd_lastupdated d)) d)"
    if item: "(sensor_id, sensor_info) \<in> set items" for sensor_id sensor_info
  proof -
    from assms item have wt: "present_fields_well_typed sensor_info" by blast
    then obtain entries where info: "sensor_info = JObj entries"
      by (cases sensor_info) (simp_all add: present_fields_well_typed_def)
    from sensor_data_of_fields [of entries sensor_id] wt info
    obtain d where d: "sensor_data_of sensor_id sensor_info = Inr d" "sd_id d = sensor_id"
      and sd: "sound_data d"
      and vals:
        "sd_type d = (case map_of entries ''type'' of None \<Rightarrow> JStr ''Unknown'' | Some v \<Rightarrow> v)"
        "sd_name d = (case map_of entries ''name'' of None \<Rightarrow> JStr ''Unknown'' | Some v \<Rightarrow> v)"
        "sd_state d = (case map_of entries ''state'' of None \<Rightarrow> JObj [] | Some v \<Rightarrow> v)"
        "sd_config d = (case map_of entries ''config'' of None \<Rightarrow> JObj [] | Some v \<Rightarrow> v)"
      and lu: "py_get (sd_state d) ''lastupdated'' (JStr ''none'') = Inr (sd_lastupdated d)"
      by blast
    have in_ds: "d \<in> set ds"
      using sensor_data_in_list [OF ds item d(1)] .
    have no_type: "sd_type d = JStr ''Unknown''
        \<and> d \<in> set (other_sensors b) \<and> buckets_holding b d = 1"
      if "\<not> has_key sensor_info ''type''"
      using that vals(1) in_ds holding [OF in_ds] info by (simp add: o)
    have no_stamp: "sd_lastupdated d = JStr ''none''
        \<and> get_time_ago L (now_at sensor_id) (sd_lastupdated d) = ''Never''"
      if "\<not> has_key (sd_state d) ''lastupdated''"
    proof -
      obtain kvs where kvs: "sd_state d = JObj kvs"
        using sd by (cases "sd_state d") (simp_all add: sound_data_def state_well_typed_def)
      with that lu have "sd_lastupdated d = JStr ''none''" by simp
      then show ?thesis by (simp add: get_time_ago_none)
    qed
    have defaults: "\<not> has_key sensor_info ''name'' \<longrightarrow> sd_name d = JStr ''Unknown''"
      "\<not> has_key sensor_info ''state'' \<longrightarrow> sd_state d = JObj []"
      "\<not> has_key sensor_info ''config'' \<longrightarrow> sd_config d = JObj []"
      using vals(2-4) info by simp_all
    show ?thesis
      using d(1) no_type no_stamp defaults in_motion [of d] in_temperature [of d]
        in_dimmer [of d] in_other [of d]
      unfolding d(2)
      by (intro exI [of _ d] conjI impI) blast+
  qed
  show ?thesis
    using run b each by (intro exI [of _ lines] exI [of _ b]) blast
qed

theorem list_sensor_activity_missing_fields_witness:
  "\<exists>lines. list_sensor_activity example_lib example_clock (Inr (JObj example_sensors))
       = Inr lines
     \<and> (\<exists>pre post. lines = pre @
           [''Unknown (ID 8) - Unknown'', ''  Last updated: Never'', ''  State: <container>'', []]
           @ post)"
proof -
  let ?d = "\<lparr>sd_id = ''8'', sd_name = JStr ''Unknown'', sd_type = JStr ''Unknown'',
             sd_lastupdated = JStr ''none'', sd_state = JObj [], sd_config = JObj []\<rparr>"
  have wt: "\<forall>(sensor_id, sensor_info) \<in> set example_sensors.
      present_fields_well_typed sensor_info"
    by (simp add: example_sensors_def present_fields_well_typed_def state_well_typed_def
        fits_float_def)
  have mem: "(''8'', JObj []) \<in> set example_sensors"
    by (simp add: example_sensors_def)
  have built: "sensor_data_of ''8'' (JObj []) = Inr ?d"
    by (simp add: sensor_data_of_def)
  from list_sensor_activity_missing_fields [OF wt, of example_lib example_clock]
  obtain lines b where run: "list_sensor_activity example_lib example_clock
        (Inr (JObj example_sensors)) = Inr lines"
    and each: "(\<forall>(sensor_id, sensor_info) \<in> set example_sensors. \<exists>d.
           sensor_data_of sensor_id sensor_info = Inr d
         \<and> (\<not> has_key sensor_info ''type'' \<longrightarrow>
               sd_type d = JStr ''Unknown''
               \<and> d \<in> set (other_sensors b) \<and> buckets_holding b d = 1)
         \<and> (\<not> has_key sensor_info ''name'' \<longrightarrow> sd_name d = JStr ''Unknown'')
         \<and> (\<not> has_key sensor_info ''state'' \<longrightarrow> sd_state d = JObj [])
         \<and> (\<not> has_key sensor_info ''config'' \<longrightarrow> sd_config d = JObj [])
         \<and> (\<not> has_key (sd_state d) ''lastupdated'' \<longrightarrow>
               sd_lastupdated d = JStr ''none''
               \<and> get_time_ago example_lib (example_clock sensor_id) (sd_lastupdated d) = ''Never'')
         \<and> (d \<in> set (motion_sensors b) \<longrightarrow>
               shown_in lines (motion_entry example_lib example_clock)
                 (''  Last updated: '' @ get_time_ago example_lib (example_clock sensor_id) (sd_lastupdated d)) d)
         \<and> (d \<in> set (temperature_sensors b) \<longrightarrow>
               shown_in lines (temperature_entry example_lib example_clock)
                 (''  Last updated: '' @ get_time_ago example_lib (example_clock sensor_id) (sd_lastupdated d)) d)
         \<and> (d \<in> set (dimmer_switches b) \<longrightarrow>
               shown_in lines (dimmer_entry example_lib example_clock)
                 (''  Last pressed: '' @ get_time_ago example_lib (example_clock sensor_id) (sd_lastupdated d)) d)
         \<and> (d \<in> set (other_sensors b) \<longrightarrow>
               shown_in lines (other_entry example_lib example_clock)
                 (''  Last updated: '' @ get_time_ago example_lib (example_clock sensor_id) (sd_lastupdated d)) d))"
    by (elim exE conjE)
  from bspec [OF each mem, unfolded prod.case]
  obtain d where d: "sensor_data_of ''8'' (JObj []) = Inr d"
    and listed: "\<not> has_key (JObj []) ''type'' \<longrightarrow>
               sd_type d = JStr ''Unknown''
               \<and> d \<in> set (other_sensors b) \<and> buckets_holding b d = 1"
    and shown: "d \<in> set (other_sensors b) \<longrightarrow>
               shown_in lines (other_entry example_lib example_clock)
                 (''  Last updated: '' @ get_time_ago example_lib (example_clock ''8'') (sd_lastupdated d)) d"
    by (elim exE conjE)
  have "d \<in> set (other_sensors b)"
    using listed by simp
  with shown have "shown_in lines (other_entry example_lib example_clock)
      (''  Last updated: '' @ get_time_ago example_lib (example_clock ''8'') (sd_lastupdated d)) d"
    by (rule mp)
  then obtain ls pre post where
    "other_entry example_lib example_clock d = Inr ls" "lines = pre @ ls @ post"
    unfolding shown_in_def by (elim exE conjE)
  moreover have "d = ?d" using d built by simp
  ultimately have "lines = pre @
      [''Unknown (ID 8) - Unknown'', ''  Last updated: Never'', ''  State: <container>'', []]
      @ post"
    by (simp add: other_entry_lines get_time_ago_none fmt_def example_lib_def)
  with run show ?thesis
    by (intro exI [of _ lines] conjI exI [of _ pre] exI [of _ post])
qed


section \<open>Properties of the light list\<close>

lemma percent_exact:
  "py_int (real_of_int n / 254 * 100) =
     (if 0 \<le> n then (n * 100) div 254 else - ((- n * 100) div 254))"
proof -
  have eq: "real_of_int n / 254 * 100 = real_of_int (n * 100) / real_of_int 254"
    by simp
  show ?thesis
  proof (cases "0 \<le> n")
    case True
    then have "0 \<le> real_of_int n / 254 * 100" by simp
    then have "py_int (real_of_int n / 254 * 100) = \<lfloor>real_of_int (n * 100) / real_of_int 254\<rfloor>"
      unfolding py_int_def eq by simp
    also have "\<dots> = (n * 100) div 254"
      by (rule floor_divide_of_int_eq)
    finally show ?thesis using True by simp
  next
    case False
    then have "\<not> 0 \<le> real_of_int n / 254 * 100" by simp
    then have "py_int (real_of_int n / 254 * 100) = \<lceil>real_of_int (n * 100) / real_of_int 254\<rceil>"
      unfolding py_int_def eq by simp
    also have "\<dots> = - \<lfloor>real_of_int (- n * 100) / real_of_int 254\<rfloor>"
      by (simp add: ceiling_def)
    also have "\<dots> = - ((- n * 100) div 254)"
      by (simp only: floor_divide_of_int_eq)
    finally show ?thesis using False by simp
  qed
qed

lemma percent_bounds:
  fixes n :: int
  assumes "0 \<le> n" "n \<le> 254"
  shows "0 \<le> (n * 100) div 254 \<and> (n * 100) div 254 \<le> 100
       \<and> 254 * ((n * 100) div 254) \<le> 100 * n
       \<and> 100 * n < 254 * ((n * 100) div 254 + 1)"
proof -
  have "0 \<le> (n * 100) div 254"
    using assms(1) by (simp add: pos_imp_zdiv_nonneg_iff)
  moreover have "(n * 100) div 254 \<le> (254 * 100) div 254"
    using assms(2) by (intro zdiv_mono1) simp_all
  moreover have "254 * ((n * 100) div 254) \<le> n * 100 \<and> n * 100 < 254 * ((n * 100) div 254 + 1)"
    by (rule div_bounds) simp
  ultimately show ?thesis by simp
qed

text \<open>
  C8. For every light record (whose name, state, on/off value, brightness and model
  are read with their defaults): when the light is on and the stored brightness \<open>n\<close> is
  on the device scale 0 to 254, the brightness line shows the percentage \<open>p\<close> between
  0 and 100 with \<open>254 * p \<le> 100 * n < 254 * (p + 1)\<close>, that is \<open>n / 254 * 100\<close> without
  its fraction; 254 shows as 100% and 127 as 50%; and when the light is off the line
  shows "N/A", whatever the stored brightness is.
\<close>

theorem light_brightness_display:
  assumes "py_get light_info ''name'' (JStr ''Unknown'') = Inr name"
    and "py_get light_info ''state'' (JObj []) = Inr state"
    and "py_get state ''on'' (JBool False) = Inr on"
    and "py_get state ''bri'' (JNum 0) = Inr bri"
    and "py_get light_info ''modelid'' (JStr ''Unknown'') = Inr model"
  shows "(truthy on \<and> bri = JNum n \<and> 0 \<le> n \<and> n \<le> 254 \<longrightarrow>
            (\<exists>p. light_entry L light_id light_info
                   = Inr [''ID '' @ light_id @ '': '' @ fmt L name, ''  Status: ON'',
                          ''  Brightness: '' @ str_int p @ ''%'',
                          ''  Model: '' @ fmt L model, []]
                 \<and> 0 \<le> p \<and> p \<le> 100 \<and> 254 * p \<le> 100 * n \<and> 100 * n < 254 * (p + 1)))
       \<and> (truthy on \<and> bri = JNum 254 \<longrightarrow>
            light_entry L light_id light_info
              = Inr [''ID '' @ light_id @ '': '' @ fmt L name, ''  Status: ON'',
                     ''  Brightness: 100%'', ''  Model: '' @ fmt L model, []])
       \<and> (truthy on \<and> bri = JNum 127 \<longrightarrow>
            light_entry L light_id light_info
              = Inr [''ID '' @ light_id @ '': '' @ fmt L name, ''  Status: ON'',
                     ''  Brightness: 50%'', ''  Model: '' @ fmt L model, []])
       \<and> (\<not> truthy on \<longrightarrow>
            light_entry L light_id light_info
              = Inr [''ID '' @ light_id @ '': '' @ fmt L name, ''  Status: OFF'',
                     ''  Brightness: N/A'', ''  Model: '' @ fmt L model, []])"
proof -
  have entry: "light_entry L light_id light_info =
      (case brightness_text on bri of
         Inl e \<Rightarrow> Inl e
       | Inr brightness \<Rightarrow>
           Inr [''ID '' @ light_id @ '': '' @ fmt L name,
                ''  Status: '' @ (if truthy on then ''ON'' else ''OFF''),
                ''  Brightness: '' @ brightness, ''  Model: '' @ fmt L model, []])"
    using assms by (simp add: light_entry_def Let_def)
  have on_text: "brightness_text on (JNum k) = Inr (str_int ((k * 100) div 254) @ ''%'')"
    if "truthy on" "0 \<le> k" for k
  proof -
    have "brightness_text on (JNum k)
        = Inr (str_int (py_int (real_of_int k / 254 * 100)) @ ''%'')"
      using that(1) by (simp only: brightness_text_def if_True json.case)
    also have "py_int (real_of_int k / 254 * 100) = (k * 100) div 254"
      using that(2) by (simp only: percent_exact if_True)
    finally show ?thesis .
  qed
  have off_text: "brightness_text on bri = Inr ''N/A''" if "\<not> truthy on"
    using that by (simp add: brightness_text_def)
  have full: "str_int ((254 * 100) div 254) = ''100''" and half: "str_int ((127 * 100) div 254) = ''50''"
    by (simp_all add: str_int_def str_nat.simps)
  have scale: "\<exists>p. light_entry L light_id light_info
                   = Inr [''ID '' @ light_id @ '': '' @ fmt L name, ''  Status: ON'',
                          ''  Brightness: '' @ str_int p @ ''%'',
                          ''  Model: '' @ fmt L model, []]
                 \<and> 0 \<le> p \<and> p \<le> 100 \<and> 254 * p \<le> 100 * n \<and> 100 * n < 254 * (p + 1)"
    if "truthy on" "bri = JNum n" "0 \<le> n" "n \<le> 254"
    using that percent_bounds [of n] on_text [of n]
    by (intro exI [of _ "(n * 100) div 254"]) (simp add: entry)
  have top: "light_entry L light_id light_info
              = Inr [''ID '' @ light_id @ '': '' @ fmt L name, ''  Status: ON'',
                     ''  Brightness: 100%'', ''  Model: '' @ fmt L model, []]"
    if "truthy on" "bri = JNum 254"
    using that on_text [of 254] full by (simp add: entry)
  have mid: "light_entry L light_id light_info
              = Inr [''ID '' @ light_id @ '': '' @ fmt L name, ''  Status: ON'',
                     ''  Brightness: 50%'', ''  Model: '' @ fmt L model, []]"
    if "truthy on" "bri = JNum 127"
    using that on_text [of 127] half by (simp add: entry)
  have off: "light_entry L light_id light_info
              = Inr [''ID '' @ light_id @ '': '' @ fmt L name, ''  Status: OFF'',
                     ''  Brightness: N/A'', ''  Model: '' @ fmt L model, []]"
    if "\<not> truthy on"
    using that off_text by (simp add: entry)
  show ?thesis
    using scale top mid off by blast
qed

theorem light_brightness_display_witness:
  "light_entry example_lib ''1'' (example_light (JBool True) (JNum 254))
     = Inr [''ID 1: Desk'', ''  Status: ON'', ''  Brightness: 100%'', ''  Model: Unknown'', []]
   \<and> light_entry example_lib ''1'' (example_light (JBool True) (JNum 127))
     = Inr [''ID 1: Desk'', ''  Status: ON'', ''  Brightness: 50%'', ''  Model: Unknown'', []]
   \<and> light_entry example_lib ''1'' (example_light (JBool False) (JStr ''junk''))
     = Inr [''ID 1: Desk'', ''  Status: OFF'', ''  Brightness: N/A'', ''  Model: Unknown'', []]"
proof -
  have fields: "py_get (example_light on bri) ''name'' (JStr ''Unknown'') = Inr (JStr ''Desk'')"
    "py_get (example_light on bri) ''state'' (JObj [])
       = Inr (JObj [(''on'', on), (''bri'', bri)])"
    "py_get (JObj [(''on'', on), (''bri'', bri)]) ''on'' (JBool False) = Inr on"
    "py_get (JObj [(''on'', on), (''bri'', bri)]) ''bri'' (JNum 0) = Inr bri"
    "py_get (example_light on bri) ''modelid'' (JStr ''Unknown'') = Inr (JStr ''Unknown'')"
    for on bri
    by (simp_all add: example_light_def)
  note at = light_brightness_display [OF fields, where L = example_lib and light_id = "''1''"]
  show ?thesis
    using at [of "JBool True" "JNum 254" 254] at [of "JBool True" "JNum 127" 127]
      at [of "JBool False" "JStr ''junk''" 0]
    by (simp add: fmt_def)
qed


section \<open>Properties of the configuration pushes\<close>

lemma requests_made_scripts:
  "requests_made (simplify_office_dimmer L put)
     = [behavior_url ''5915920b-c177-4773-b7f1-258e56200338'']"
  "requests_made (simplify_office_v2 put)
     = [behavior_url ''5915920b-c177-4773-b7f1-258e56200338'']"
  "requests_made (update_outdoor_automation L put)
     = [behavior_url ''3853720c-0c70-41ee-b2f5-b83a65e39090'']"
  by (simp_all add: requests_made_def simplify_office_dimmer_def simplify_office_v2_def
      update_outdoor_automation_def Let_def split: sum.splits option.splits)

text \<open>On a text of single-byte characters \<open>take_chars\<close> is \<open>take\<close>.\<close>

lemma take_chars_single_bytes:
  "list_all (\<lambda>c. \<not> is_continuation c) s \<Longrightarrow> take_chars n s = take n s"
proof (induction n s rule: take_chars.induct)
  case (3 n c cs)
  then have "takeWhile is_continuation cs = []" "dropWhile is_continuation cs = cs"
    by (cases cs; simp)+
  with 3 show ?case by simp
qed simp_all

text \<open>
  A character of two bytes counts once: of 499 letters, an e with acute accent and one
  more letter, the first 500 characters are 501 bytes.
\<close>

lemma take_chars_two_bytes:
  "take_chars 500 (replicate 499 CHR ''a'' @ [CHR 0xC3, CHR 0xA9] @ ''b'')
     = replicate 499 CHR ''a'' @ [CHR 0xC3, CHR 0xA9]"
proof -
  have step: "take_chars (n + k) (replicate n CHR ''a'' @ rest)
      = replicate n CHR ''a'' @ take_chars k rest"
    if "rest \<noteq> [] \<and> \<not> is_continuation (hd rest)" for n k rest
    using that
  proof (induction n)
    case 0
    then show ?case by simp
  next
    case (Suc n)
    have "\<not> is_continuation CHR ''a''" by (simp add: is_continuation_def)
    then have "takeWhile is_continuation (replicate n CHR ''a'' @ rest) = []"
      "dropWhile is_continuation (replicate n CHR ''a'' @ rest) = replicate n CHR ''a'' @ rest"
      using Suc.prems by (cases n; cases rest; simp)+
    with Suc show ?case by simp
  qed
  have "take_chars (499 + 1) (replicate 499 CHR ''a'' @ [CHR 0xC3, CHR 0xA9] @ ''b'')
      = replicate 499 CHR ''a'' @ take_chars 1 ([CHR 0xC3, CHR 0xA9] @ ''b'')"
    by (rule step) (simp add: is_continuation_def)
  moreover have "take_chars 1 ([CHR 0xC3, CHR 0xA9] @ ''b'') = [CHR 0xC3, CHR 0xA9]"
    by (simp add: is_continuation_def)
  ultimately show ?thesis by simp
qed

text \<open>
  C7. The claim is that a push reports an error exactly when the status is not of the
  form 2xx, printing the status code and the response body, and reports success with
  a JSON echo otherwise. The scripts compare the status with 200 only: a response with
  status 201 is inside 2xx and is reported as an error by \<open>simplify_office_dimmer\<close> and
  by \<open>update_outdoor_automation\<close>. At status 200 with a body that is no JSON these two
  print their success line and then end with the exception of \<^verbatim>\<open>response.json()\<close>,
  without an echo. \<open>simplify_office_v2\<close> prints no echo on success, and of a body of
  501 characters it prints the first 500 on error.
\<close>

theorem push_reports_counterexample:
  "200 \<le> status_code created \<and> status_code created < 300
   \<and> printed_after_request (fst (simplify_office_dimmer example_lib (answering created)))
       = [''\<newline>[ERROR] Status: 201'', text_body created]
   \<and> printed_after_request (fst (update_outdoor_automation example_lib (answering created)))
       = [''\<newline>'' @ [CHR 0xE2, CHR 0x9C, CHR 0x97] @ '' Error: 201'', text_body created]
   \<and> simplify_office_dimmer example_lib (answering accepted_plain)
       = (fst (simplify_office_dimmer example_lib (answering accepted_plain)),
          Some JSONDecodeError)
   \<and> printed_after_request
         (fst (simplify_office_dimmer example_lib (answering accepted_plain)))
       = [''\<newline>[SUCCESS] OfficeDimmer simplified!'']
   \<and> json_body accepted = Some (JObj [])
   \<and> printed_after_request (fst (simplify_office_v2 (answering accepted)))
       = [''[SUCCESS] OfficeDimmer simplified!'',
          ''  ON button: Turn all lights ON at 100%'',
          ''  OFF button: Turn all lights OFF'',
          ''  Brighten/Dim: Still work'']
   \<and> length (text_body long_failure) = 501
   \<and> printed_after_request (fst (simplify_office_v2 (answering long_failure)))
       = [''[ERROR] Status: 500'', replicate 500 CHR ''x'']"
proof -
  have "take_chars 500 (replicate 501 CHR ''x'') = take 500 (replicate 501 CHR ''x'')"
    by (rule take_chars_single_bytes) (simp add: list_all_iff is_continuation_def)
  then have cut: "take_chars 500 (replicate 501 CHR ''x'') = replicate 500 CHR ''x''"
    by simp
  show ?thesis
    by (simp add: created_def accepted_def accepted_plain_def long_failure_def cut
        simplify_office_dimmer_def update_outdoor_automation_def simplify_office_v2_def
        answering_def Let_def str_int_def str_nat.simps)
qed

text \<open>
  C7 as amended. Each of the three scripts sends exactly one request, whatever the
  bridge does (no retry), and decides by the status alone. When the status is not 200,
  \<open>simplify_office_dimmer\<close> and \<open>update_outdoor_automation\<close> end normally after printing
  an error line with the status code and then the response body;
  \<open>simplify_office_v2\<close> prints the error line and the first 500 characters of the body.
  When the status is 200, the first line each script prints is its success line;
  \<open>simplify_office_v2\<close> prints its four success lines and no echo; the other two print
  the JSON echo after the success line when the body is JSON, and when it is not they
  end after the success line with the exception of \<^verbatim>\<open>response.json()\<close>.
\<close>

theorem push_reports_by_status:
  "requests_made (simplify_office_dimmer L put)
     = [behavior_url ''5915920b-c177-4773-b7f1-258e56200338'']
   \<and> requests_made (simplify_office_v2 put)
     = [behavior_url ''5915920b-c177-4773-b7f1-258e56200338'']
   \<and> requests_made (update_outdoor_automation L put)
     = [behavior_url ''3853720c-0c70-41ee-b2f5-b83a65e39090'']
   \<and> (status_code r \<noteq> 200 \<longrightarrow>
         simplify_office_dimmer L (answering r)
           = (fst (simplify_office_dimmer L (answering r)), None)
       \<and> printed_after_request (fst (simplify_office_dimmer L (answering r)))
           = [''\<newline>[ERROR] Status: '' @ str_int (status_code r), text_body r]
       \<and> update_outdoor_automation L (answering r)
           = (fst (update_outdoor_automation L (answering r)), None)
       \<and> printed_after_request (fst (update_outdoor_automation L (answering r)))
           = [''\<newline>'' @ [CHR 0xE2, CHR 0x9C, CHR 0x97] @ '' Error: ''
                @ str_int (status_code r),
              text_body r]
       \<and> simplify_office_v2 (answering r) = (fst (simplify_office_v2 (answering r)), None)
       \<and> printed_after_request (fst (simplify_office_v2 (answering r)))
           = [''[ERROR] Status: '' @ str_int (status_code r),
              take_chars 500 (text_body r)])
   \<and> (status_code r = 200 \<longrightarrow>
         hd (printed_after_request (fst (simplify_office_dimmer L (answering r))))
           = ''\<newline>[SUCCESS] OfficeDimmer simplified!''
       \<and> hd (printed_after_request (fst (update_outdoor_automation L (answering r))))
           = ''\<newline>'' @ [CHR 0xE2, CHR 0x9C, CHR 0x93] @ '' Automation updated successfully!''
       \<and> simplify_office_v2 (answering r) = (fst (simplify_office_v2 (answering r)), None)
       \<and> printed_after_request (fst (simplify_office_v2 (answering r)))
           = [''[SUCCESS] OfficeDimmer simplified!'',
              ''  ON button: Turn all lights ON at 100%'',
              ''  OFF button: Turn all lights OFF'',
              ''  Brighten/Dim: Still work''])
   \<and> (status_code r = 200 \<and> json_body r = Some echo \<longrightarrow>
         simplify_office_dimmer L (answering r)
           = (fst (simplify_office_dimmer L (answering r)), None)
       \<and> printed_after_request (fst (simplify_office_dimmer L (answering r)))
           = [''\<newline>[SUCCESS] OfficeDimmer simplified!'', dumps_indent2 L echo]
       \<and> update_outdoor_automation L (answering r)
           = (fst (update_outdoor_automation L (answering r)), None)
       \<and> printed_after_request (fst (update_outdoor_automation L (answering r)))
           = [''\<newline>'' @ [CHR 0xE2, CHR 0x9C, CHR 0x93]
                @ '' Automation updated successfully!'',
              dumps_indent2 L echo])
   \<and> (status_code r = 200 \<and> json_body r = None \<longrightarrow>
         simplify_office_dimmer L (answering r)
           = (fst (simplify_office_dimmer L (answering r)), Some JSONDecodeError)
       \<and> printed_after_request (fst (simplify_office_dimmer L (answering r)))
           = [''\<newline>[SUCCESS] OfficeDimmer simplified!'']
       \<and> update_outdoor_automation L (answering r)
           = (fst (update_outdoor_automation L (answering r)), Some JSONDecodeError)
       \<and> printed_after_request (fst (update_outdoor_automation L (answering r)))
           = [''\<newline>'' @ [CHR 0xE2, CHR 0x9C, CHR 0x93]
                @ '' Automation updated successfully!''])"
proof -
  have err: "simplify_office_dimmer L (answering r)
           = (fst (simplify_office_dimmer L (answering r)), None)
       \<and> printed_after_request (fst (simplify_office_dimmer L (answering r)))
           = [''\<newline>[ERROR] Status: '' @ str_int (status_code r), text_body r]
       \<and> update_outdoor_automation L (answering r)
           = (fst (update_outdoor_automation L (answering r)), None)
       \<and> printed_after_request (fst (update_outdoor_automation L (answering r)))
           = [''\<newline>'' @ [CHR 0xE2, CHR 0x9C, CHR 0x97] @ '' Error: ''
                @ str_int (status_code r),
              text_body r]
       \<and> simplify_office_v2 (answering r) = (fst (simplify_office_v2 (answering r)), None)
       \<and> printed_after_request (fst (simplify_office_v2 (answering r)))
           = [''[ERROR] Status: '' @ str_int (status_code r),
              take_chars 500 (text_body r)]"
    if "status_code r \<noteq> 200"
    using that
    by (simp add: simplify_office_dimmer_def update_outdoor_automation_def
        simplify_office_v2_def answering_def Let_def)
  have ok: "hd (printed_after_request (fst (simplify_office_dimmer L (answering r))))
           = ''\<newline>[SUCCESS] OfficeDimmer simplified!''
       \<and> hd (printed_after_request (fst (update_outdoor_automation L (answering r))))
           = ''\<newline>'' @ [CHR 0xE2, CHR 0x9C, CHR 0x93] @ '' Automation updated successfully!''
       \<and> simplify_office_v2 (answering r) = (fst (simplify_office_v2 (answering r)), None)
       \<and> printed_after_request (fst (simplify_office_v2 (answering r)))
           = [''[SUCCESS] OfficeDimmer simplified!'',
              ''  ON button: Turn all lights ON at 100%'',
              ''  OFF button: Turn all lights OFF'',
              ''  Brighten/Dim: Still work'']"
    if "status_code r = 200"
    using that
    by (cases "json_body r")
       (simp_all add: simplify_office_dimmer_def update_outdoor_automation_def
        simplify_office_v2_def answering_def Let_def)
  have echo: "simplify_office_dimmer L (answering r)
           = (fst (simplify_office_dimmer L (answering r)), None)
       \<and> printed_after_request (fst (simplify_office_dimmer L (answering r)))
           = [''\<newline>[SUCCESS] OfficeDimmer simplified!'', dumps_indent2 L echo]
       \<and> update_outdoor_automation L (answering r)
           = (fst (update_outdoor_automation L (answering r)), None)
       \<and> printed_after_request (fst (update_outdoor_automation L (answering r)))
           = [''\<newline>'' @ [CHR 0xE2, CHR 0x9C, CHR 0x93]
                @ '' Automation updated successfully!'',
              dumps_indent2 L echo]"
    if "status_code r = 200" "json_body r = Some echo"
    using that
    by (simp add: simplify_office_dimmer_def update_outdoor_automation_def
        answering_def Let_def)
  have raised: "simplify_office_dimmer L (answering r)
           = (fst (simplify_office_dimmer L (answering r)), Some JSONDecodeError)
       \<and> printed_after_request (fst (simplify_office_dimmer L (answering r)))
           = [''\<newline>[SUCCESS] OfficeDimmer simplified!'']
       \<and> update_outdoor_automation L (answering r)
           = (fst (update_outdoor_automation L (answering r)), Some JSONDecodeError)
       \<and> printed_after_request (fst (update_outdoor_automation L (answering r)))
           = [''\<newline>'' @ [CHR 0xE2, CHR 0x9C, CHR 0x93]
                @ '' Automation updated successfully!'']"
    if "status_code r = 200" "json_body r = None"
    using that
    by (simp add: simplify_office_dimmer_def update_outdoor_automation_def
        answering_def Let_def)
  show ?thesis
    using err ok echo raised requests_made_scripts by blast
qed

theorem push_reports_by_status_witness:
  "requests_made (simplify_office_dimmer example_lib (answering not_found))
     = [behavior_url ''5915920b-c177-4773-b7f1-258e56200338'']
   \<and> printed_after_request (fst (simplify_office_dimmer example_lib (answering not_found)))
       = [''\<newline>[ERROR] Status: 404'', ''Not Found'']
   \<and> printed_after_request (fst (simplify_office_v2 (answering not_found)))
       = [''[ERROR] Status: 404'', take_chars 500 ''Not Found'']
   \<and> printed_after_request (fst (simplify_office_dimmer example_lib (answering accepted)))
       = [''\<newline>[SUCCESS] OfficeDimmer simplified!'', ''<json>'']
   \<and> simplify_office_dimmer example_lib (answering accepted_plain)
       = (fst (simplify_office_dimmer example_lib (answering accepted_plain)),
          Some JSONDecodeError)"
  using push_reports_by_status [of example_lib "answering not_found" not_found "JObj []"]
    push_reports_by_status [of example_lib "answering accepted" accepted "JObj []"]
    push_reports_by_status [of example_lib "answering accepted" accepted_plain "JObj []"]
  by (simp add: not_found_def accepted_def accepted_plain_def example_lib_def str_int_def
      str_nat.simps)

end
